theory Spec2Isabelle
  imports Complex_Main
begin

section \<open>Rasters and errors\<close>

text \<open>
  A raster is what \<^verbatim>\<open>gdal.Open\<close> gives the program for one file: the size of the grid,
  the georeferencing that is passed through unchanged, the cell type of band 1, the nodata
  value of band 1 (\<^verbatim>\<open>GetNoDataValue()\<close> is \<^verbatim>\<open>None\<close> when the band declares none) and the
  cells of band 1 (\<^verbatim>\<open>ReadAsArray()\<close>), here in row-major order. Every array operation of
  the program is elementwise, so the two-dimensional array is kept as the list of its cells.

  A cell value is a real number: every finite value of an integer or floating-point band is
  one. The IEEE value NaN, which compares unequal to everything, and the infinities are
  outside the model.
\<close>

datatype gdal_data_type =
  GDT_Byte | GDT_Int8 | GDT_UInt16 | GDT_Int16 | GDT_UInt32 | GDT_Int32
  | GDT_Float32 | GDT_Float64

record raster =
  x_size :: nat
  y_size :: nat
  geotransform :: "real list"
  projection :: string
  data_type :: gdal_data_type
  nodata_value :: "real option"
  band :: "real list"

text \<open>
  The exceptions of Python and NumPy that the modelled code can raise. \<open>ShapeMismatch\<close>
  stands for what happens when arrays of different shapes meet in arithmetic (NumPy
  broadcasts or raises ValueError, and the write to the band may fail afterwards): the
  model stops there.

  The arithmetic of the two fusions on cell values is that of the real numbers: the
  rounding of their float32 operations is not modelled. The comparisons of
  \<^verbatim>\<open>classify_raster\<close> between cells and bounds and the sum of the weight validation are
  modelled with the rounding they make.
\<close>

datatype error =
  TypeError
  | OverflowError
  | IndexError
  | ValueError string
  | FileNotFoundError
  | ShapeMismatch

section \<open>Floating-point values\<close>

text \<open>
  The cells of a Float32 band are IEEE 754 binary32 numbers; a Python float, a NumPy
  float64 and the value \<^verbatim>\<open>GetNoDataValue()\<close> returns are binary64 numbers. Every finite
  one is a real number, and a real number is made one by rounding to the nearest
  representable value, a tie going to the value whose last bit is even.

  Python's \<^verbatim>\<open>round(x)\<close> with one argument is this rounding to an integer: the nearest
  integer, a tie going to the even one.
\<close>

definition py_round :: "real \<Rightarrow> int" where
  "py_round x =
     (let f = \<lfloor>x\<rfloor>; d = x - of_int f
      in if d < 1 / 2 then f else if 1 / 2 < d then f + 1 else if even f then f else f + 1)"

text \<open>
  The binary exponent of a positive number \<open>a\<close>, the integer \<open>e\<close> with
  \<open>2 ^ e \<le> a < 2 ^ (e + 1)\<close>.
\<close>

function binary_exponent :: "real \<Rightarrow> int" where
  "binary_exponent a =
     (if 2 \<le> a then binary_exponent (a / 2) + 1
      else if 0 < a \<and> a < 1 then binary_exponent (a * 2) - 1
      else 0)"
  by pat_completeness auto

termination
proof (relation "measure (\<lambda>a. nat \<bar>\<lfloor>log 2 a\<rfloor>\<bar>)")
  show "wf (measure (\<lambda>a. nat \<bar>\<lfloor>log 2 a\<rfloor>\<bar>))" by simp
next
  fix a :: real
  assume a: "2 \<le> a"
  then have "log 2 (a / 2) = log 2 a - 1" by (simp add: log_divide)
  moreover have "1 \<le> log 2 a" using a by (simp add: le_log_iff)
  ultimately show "(a / 2, a) \<in> measure (\<lambda>a. nat \<bar>\<lfloor>log 2 a\<rfloor>\<bar>)" by simp
next
  fix a :: real
  assume a: "0 < a \<and> a < 1"
  then have "log 2 (a * 2) = log 2 a + 1" by (simp add: log_mult)
  moreover have "\<lfloor>log 2 a\<rfloor> \<le> - 1" using a by (simp add: floor_le_iff)
  ultimately show "(a * 2, a) \<in> measure (\<lambda>a. nat \<bar>\<lfloor>log 2 a\<rfloor>\<bar>)" by simp
qed

declare binary_exponent.simps [simp del]

text \<open>
  Rounding to a binary format with \<open>p\<close> bits of precision and least exponent \<open>emin\<close>:
  the magnitude is rounded to a multiple of the unit in the last place of its binade (of
  the binade of \<open>emin\<close> for a subnormal magnitude). binary32 has 24 bits and least
  exponent \<open>-126\<close>, binary64 has 53 bits and least exponent \<open>-1022\<close>. The exponent is not
  bounded from above: where IEEE rounding gives an infinity, the value here is a real
  number above every finite number of the format, which compares with the finite numbers
  of the format as the infinity does.
\<close>

definition round_magnitude :: "nat \<Rightarrow> int \<Rightarrow> real \<Rightarrow> real" where
  "round_magnitude p emin a =
     (let u = 2 powi (max (binary_exponent a) emin - int p + 1)
      in of_int (py_round (a / u)) * u)"

definition binary_round :: "nat \<Rightarrow> int \<Rightarrow> real \<Rightarrow> real" where
  "binary_round p emin x = sgn x * round_magnitude p emin \<bar>x\<bar>"

definition float32 :: "real \<Rightarrow> real" where
  "float32 x = binary_round 24 (- 126) x"

definition float64 :: "real \<Rightarrow> real" where
  "float64 x = binary_round 53 (- 1022) x"

text \<open>
  A Python number that meets an array in a comparison is converted to the cell type of the
  array when that type is a floating-point type: \<^verbatim>\<open>array_ds < high\<close> on a Float32 band
  compares every cell with \<^verbatim>\<open>np.float32(high)\<close>. With a band of integers the comparison
  is made in float64, which holds every cell of the integer types and every Python float
  exactly.
\<close>

fun to_cell_type :: "gdal_data_type \<Rightarrow> real \<Rightarrow> real" where
  "to_cell_type GDT_Float32 x = float32 x"
| "to_cell_type GDT_Float64 x = float64 x"
| "to_cell_type GDT_Byte x = x"
| "to_cell_type GDT_Int8 x = x"
| "to_cell_type GDT_UInt16 x = x"
| "to_cell_type GDT_Int16 x = x"
| "to_cell_type GDT_UInt32 x = x"
| "to_cell_type GDT_Int32 x = x"

text \<open>
  The sum of two Python floats is the exact sum rounded to binary64, and \<^verbatim>\<open>sum(xs)\<close> adds
  the items to 0 from left to right (CPython up to version 3.11; later versions carry a
  compensation term along).
\<close>

definition py_add :: "real \<Rightarrow> real \<Rightarrow> real" where
  "py_add s x = float64 (s + x)"

definition py_sum :: "real list \<Rightarrow> real" where
  "py_sum xs = foldl py_add 0 xs"

section \<open>functions.py: classify_raster\<close>

text \<open>
  A classification rule is a triple \<^verbatim>\<open>(low, high, value)\<close> of constants.py; \<^verbatim>\<open>None\<close> in
  the first or second place is an absent bound. A bound is a Python number, an integer or a
  float. The class code is a Python integer.
\<close>

type_synonym classification_rule = "real option \<times> real option \<times> int"

text \<open>
  \<^verbatim>\<open>np.full(array_shape, nodata, dtype=np.int8)\<close> converts the floating-point nodata value
  to an 8-bit signed integer: the fraction is dropped (towards zero); a value in
  \<open>-128 .. 127\<close> is kept, and outside that range the C conversion is not defined (the low
  eight bits on the usual platforms, which is what \<open>int8_wrap\<close> computes). No theorem below
  relies on the conversion outside the range.
\<close>

definition trunc_toward_zero :: "real \<Rightarrow> int" where
  "trunc_toward_zero x = (if 0 \<le> x then \<lfloor>x\<rfloor> else \<lceil>x\<rceil>)"

definition int8_wrap :: "int \<Rightarrow> int" where
  "int8_wrap n = (n + 128) mod 256 - 128"

definition int8_of_float :: "real \<Rightarrow> int" where
  "int8_of_float x = int8_wrap (trunc_toward_zero x)"

definition fits_int8 :: "int \<Rightarrow> bool" where
  "fits_int8 c = (- 128 \<le> c \<and> c \<le> 127)"

text \<open>
  \<^verbatim>\<open>classified_array[mask] = value\<close> on an int8 array. NumPy converts the Python integer to
  int8 before it looks at the mask, and (from NumPy 2) raises OverflowError when the integer
  is outside the range of int8; older versions warn and keep the low eight bits. The two
  agree on every code that fits, and the properties below are about such codes. The mask is
  computed from \<^verbatim>\<open>array_ds\<close>, cell by cell.
\<close>

definition assign_where :: "(real \<Rightarrow> bool) \<Rightarrow> real list \<Rightarrow> int \<Rightarrow> int list \<Rightarrow> error + int list" where
  "assign_where in_mask array_ds v classified_array =
     (if fits_int8 v
      then Inr (map2 (\<lambda>a c. if in_mask a then v else c) array_ds classified_array)
      else Inl OverflowError)"

text \<open>
  One pass of the body of \<^verbatim>\<open>for low, high, value in classification_range\<close>. With both
  bounds absent the first branch evaluates \<^verbatim>\<open>array_ds < None\<close>, which NumPy refuses with
  TypeError (a GDAL band has at least one cell). \<open>t\<close> is the cell type of \<^verbatim>\<open>array_ds\<close>,
  and \<^verbatim>\<open>low\<close>, \<^verbatim>\<open>high\<close> and \<^verbatim>\<open>nodata\<close> are the Python numbers, which every comparison
  converts to that type.
\<close>

fun apply_rule ::
  "gdal_data_type \<Rightarrow> real \<Rightarrow> real list \<Rightarrow> classification_rule \<Rightarrow> int list \<Rightarrow> error + int list"
where
  "apply_rule t nodata array_ds (None, None, v) classified_array = Inl TypeError"
| "apply_rule t nodata array_ds (None, Some high, v) classified_array =
     assign_where (\<lambda>a. a < to_cell_type t high \<and> a \<noteq> to_cell_type t nodata)
       array_ds v classified_array"
| "apply_rule t nodata array_ds (Some low, None, v) classified_array =
     assign_where (\<lambda>a. a \<ge> to_cell_type t low \<and> a \<noteq> to_cell_type t nodata)
       array_ds v classified_array"
| "apply_rule t nodata array_ds (Some low, Some high, v) classified_array =
     assign_where (\<lambda>a. a \<ge> to_cell_type t low \<and> a < to_cell_type t high)
       array_ds v classified_array"

fun classify_loop ::
  "gdal_data_type \<Rightarrow> real \<Rightarrow> real list \<Rightarrow> classification_rule list \<Rightarrow> int list \<Rightarrow>
   error + int list"
where
  "classify_loop t nodata array_ds [] classified_array = Inr classified_array"
| "classify_loop t nodata array_ds (rule # rules) classified_array =
     (case apply_rule t nodata array_ds rule classified_array of
        Inl e \<Rightarrow> Inl e
      | Inr classified_array' \<Rightarrow> classify_loop t nodata array_ds rules classified_array')"

text \<open>
  The branch \<^verbatim>\<open>classification_range is not None\<close>: the array filled with the nodata
  value converted to int8, the loop over the rules, and then
  \<^verbatim>\<open>classified_array[array_ds == nodata] = -128\<close>.
\<close>

definition classify_array ::
  "gdal_data_type \<Rightarrow> real \<Rightarrow> real list \<Rightarrow> classification_rule list \<Rightarrow> error + int list"
where
  "classify_array t nodata array_ds classification_range =
     (case classify_loop t nodata array_ds classification_range
             (replicate (length array_ds) (int8_of_float nodata)) of
        Inl e \<Rightarrow> Inl e
      | Inr classified_array \<Rightarrow>
          Inr (map2 (\<lambda>a c. if a = to_cell_type t nodata then - 128 else c)
                 array_ds classified_array))"

text \<open>
  The Python variable \<^verbatim>\<open>nodata\<close>: the nodata value of the band, or \<open>-128\<close> when the band
  declares none.
\<close>

definition nodata_or_default :: "raster \<Rightarrow> real" where
  "nodata_or_default r = (case nodata_value r of None \<Rightarrow> - 128 | Some n \<Rightarrow> n)"

text \<open>
  The input nodata value as the cells are compared with it, in the cell type of the band.
\<close>

definition input_nodata :: "raster \<Rightarrow> real" where
  "input_nodata r = to_cell_type (data_type r) (nodata_or_default r)"

text \<open>
  \<^verbatim>\<open>classify_raster\<close>. The result is the raster the function creates: size, geotransform
  and projection of the input, cell type \<^verbatim>\<open>gdal.GDT_Int8\<close>, nodata value \<open>-128\<close>, and as
  band the array the function hands to \<^verbatim>\<open>WriteArray\<close>. With \<^verbatim>\<open>classification_range = None\<close>
  that array is \<^verbatim>\<open>array_ds\<close> itself; what the raster library makes of values that are not
  8-bit integers when it stores them is the library's and is not modelled.
\<close>

definition classify_raster :: "raster \<Rightarrow> classification_rule list option \<Rightarrow> error + raster" where
  "classify_raster r classification_range =
     (let nodata = nodata_or_default r;
          array_ds = band r
      in case (case classification_range of
                 Some rules \<Rightarrow>
                   (case classify_array (data_type r) nodata array_ds rules of
                      Inl e \<Rightarrow> Inl e
                    | Inr classified_array \<Rightarrow> Inr (map real_of_int classified_array))
               | None \<Rightarrow> Inr array_ds) of
           Inl e \<Rightarrow> Inl e
         | Inr classified_array \<Rightarrow>
             Inr (r\<lparr>data_type := GDT_Int8, nodata_value := Some (- 128), band := classified_array\<rparr>))"

text \<open>
  The classification as the specification words it, for one cell value: a rule with no lower
  bound matches \<open>value < upperBound\<close>, a rule with no upper bound matches
  \<open>value \<ge> lowerBound\<close>, a bounded rule matches \<open>lowerBound \<le> value < upperBound\<close>; the
  class is the code of the last rule, in declared order, that matches.
\<close>

fun spec_rule_matches :: "classification_rule \<Rightarrow> real \<Rightarrow> bool" where
  "spec_rule_matches (None, Some upper, c) x = (x < upper)"
| "spec_rule_matches (Some lower, None, c) x = (lower \<le> x)"
| "spec_rule_matches (Some lower, Some upper, c) x = (lower \<le> x \<and> x < upper)"
| "spec_rule_matches (None, None, c) x = False"

definition spec_last_match :: "classification_rule list \<Rightarrow> real \<Rightarrow> int option" where
  "spec_last_match rules x =
     (case filter (\<lambda>rule. spec_rule_matches rule x) rules of
        [] \<Rightarrow> None
      | ms \<Rightarrow> Some (snd (snd (last ms))))"

text \<open>A specification the program accepts: no rule without bounds, every code an int8.\<close>

fun rule_ok :: "classification_rule \<Rightarrow> bool" where
  "rule_ok (low, high, v) = ((low \<noteq> None \<or> high \<noteq> None) \<and> fits_int8 v)"

text \<open>A rule with its bounds converted to the cell type of a band.\<close>

fun rule_in_cell_type :: "gdal_data_type \<Rightarrow> classification_rule \<Rightarrow> classification_rule" where
  "rule_in_cell_type t (low, high, v) =
     (map_option (to_cell_type t) low, map_option (to_cell_type t) high, v)"


section \<open>constants.py\<close>

datatype factor = Slope | Curvature | Lulc | Ndvi | Aspect | River | Road | Fault | Soil | Geology

text \<open>
  The order of the fields of the dataclasses, which is the order of the dictionaries
  \<^verbatim>\<open>asdict\<close> makes of them and of the loops over their items.
\<close>

definition factors :: "factor list" where
  "factors = [Slope, Curvature, Lulc, Ndvi, Aspect, River, Road, Fault, Soil, Geology]"

text \<open>
  The default \<^verbatim>\<open>ClassificationParameters\<close>, as the dictionary main.py indexes by raster
  type. A decimal literal of the source is the binary64 number nearest to it; the integers
  and the halves are such numbers themselves.
\<close>

fun ClassificationParameters :: "factor \<Rightarrow> classification_rule list option" where
  "ClassificationParameters Slope = Some
     [(None, Some 15, 1), (Some 15, Some 30, 8), (Some 30, Some 60, 10), (Some 60, None, 4)]"
| "ClassificationParameters Curvature = Some
     [(None, Some 0, 2), (Some 0, Some (float64 (1 / 1000)), 1),
      (Some (float64 (1 / 100)), None, 3)]"
| "ClassificationParameters Lulc = Some
     [(None, Some 1, 1), (Some 1, Some 2, 1), (Some 2, Some 4, 3), (Some 4, Some 5, 7),
      (Some 5, Some 7, 3), (Some 7, Some 8, 2), (Some 8, Some 9, 8), (Some 9, Some 11, 1),
      (Some 11, None, 7)]"
| "ClassificationParameters Ndvi = Some
     [(None, Some 0, 9), (Some 0, Some (float64 (2 / 10)), 7),
      (Some (float64 (2 / 10)), Some (float64 (4 / 10)), 5), (Some (float64 (4 / 10)), None, 2)]"
| "ClassificationParameters Aspect = Some
     [(Some 0, Some (45 / 2), 2), (Some (45 / 2), Some (135 / 2), 2),
      (Some (135 / 2), Some (225 / 2), 3), (Some (225 / 2), Some (315 / 2), 4),
      (Some (315 / 2), Some (405 / 2), 6), (Some (405 / 2), Some (495 / 2), 4),
      (Some (495 / 2), Some (585 / 2), 6), (Some (585 / 2), Some (675 / 2), 2),
      (Some (675 / 2), Some 360, 2)]"
| "ClassificationParameters River = Some
     [(None, Some 100, 5), (Some 100, Some 500, 3), (Some 500, None, 2)]"
| "ClassificationParameters Road = Some
     [(None, Some 100, 5), (Some 100, Some 500, 3), (Some 500, None, 2)]"
| "ClassificationParameters Fault = Some
     [(None, Some 100, 5), (Some 100, Some 500, 3), (Some 500, None, 2)]"
| "ClassificationParameters Soil = Some
     [(None, Some 2, 2), (Some 2, Some 3, 6), (Some 3, Some 4, 7), (Some 4, Some 5, 3),
      (Some 5, Some 12, 2), (Some 12, Some 13, 2), (Some 13, Some 14, 3), (Some 14, Some 15, 4),
      (Some 15, None, 2)]"
| "ClassificationParameters Geology = None"

record FinalWeights =
  slope :: real
  curvature :: real
  lulc :: real
  ndvi :: real
  aspect :: real
  river :: real
  road :: real
  fault :: real
  soil :: real
  geology :: real

definition default_FinalWeights :: FinalWeights where
  "default_FinalWeights =
     \<lparr>slope = float64 (15 / 100), curvature = float64 (8 / 100), lulc = float64 (9 / 100),
      ndvi = float64 (8 / 100), aspect = float64 (9 / 100), river = float64 (7 / 100),
      road = float64 (9 / 100), fault = float64 (13 / 100), soil = float64 (1 / 10),
      geology = float64 (12 / 100)\<rparr>"

text \<open>\<^verbatim>\<open>FINAL_WEIGHTS[raster_type]\<close>.\<close>

fun weight_of :: "FinalWeights \<Rightarrow> factor \<Rightarrow> real" where
  "weight_of w Slope = slope w"
| "weight_of w Curvature = curvature w"
| "weight_of w Lulc = lulc w"
| "weight_of w Ndvi = ndvi w"
| "weight_of w Aspect = aspect w"
| "weight_of w River = river w"
| "weight_of w Road = road w"
| "weight_of w Fault = fault w"
| "weight_of w Soil = soil w"
| "weight_of w Geology = geology w"

text \<open>
  The list \<^verbatim>\<open>weight_values\<close> that \<^verbatim>\<open>FinalWeights.__post_init__\<close> builds, and the method,
  which rounds the sum Python's float addition gives.
\<close>

definition weight_values :: "FinalWeights \<Rightarrow> real list" where
  "weight_values w =
     [slope w, curvature w, lulc w, ndvi w, aspect w, river w, road w, soil w, geology w]"

definition FinalWeights_post_init :: "FinalWeights \<Rightarrow> error + unit" where
  "FinalWeights_post_init w =
     (if list_ex (\<lambda>weight. weight = 0) (weight_values w)
      then Inl (ValueError ''All weights must be non-zero.'')
      else if py_round (py_sum (weight_values w)) \<noteq> 1
      then Inl (ValueError ''Ensure that the sum of all weights is 1.'')
      else Inr ())"

section \<open>main.py: the base susceptibility map\<close>


definition array_shape :: "raster \<Rightarrow> nat \<times> nat" where
  "array_shape r = (y_size r, x_size r)"






section \<open>functions.py: create_final_landslide_susceptibility_map\<close>

text \<open>
  \<^verbatim>\<open>basemap_min\<close> and \<^verbatim>\<open>basemap_max\<close> are the statistics \<^verbatim>\<open>ComputeRasterMinMax\<close> of the
  raster library returns for the base map; the function receives them here as arguments.
  The three masked arrays are the arrays read, changed in place, so \<^verbatim>\<open>basemap_array\<close> in
  the sum is the masked array as well. The rasters are those the pipeline writes, a base map
  of 32-bit floating-point cells and rainfall rasters of 8-bit signed cells, which all can
  hold the value \<open>-128\<close> the masks assign.
\<close>

definition fusion_result :: "real \<Rightarrow> real \<Rightarrow> real \<Rightarrow> real \<Rightarrow> real \<Rightarrow> real \<Rightarrow> real" where
  "fusion_result scaling_factor recorded_rainfall_weight forecast_rainfall_weight b rec fc =
     (let basemap_masked = (if b \<le> 0 then - 128 else b);
          recorded_rainfall_masked = (if rec < 0 then - 128 else rec);
          forecast_rainfall_masked = (if fc < 0 then - 128 else fc);
          step1 = scaling_factor / basemap_masked;
          step2 = step1 * recorded_rainfall_masked * recorded_rainfall_weight;
          step3 = step1 * forecast_rainfall_masked * forecast_rainfall_weight
      in basemap_masked + step2 + step3)"

definition create_final_landslide_susceptibility_map ::
  "real \<Rightarrow> real \<Rightarrow> raster \<Rightarrow> raster \<Rightarrow> raster \<Rightarrow> real \<Rightarrow> real \<Rightarrow> error + raster" where
  "create_final_landslide_susceptibility_map basemap_min basemap_max base_map
       recorded_rainfall_raster forecast_rainfall_raster
       recorded_rainfall_weight forecast_rainfall_weight =
     (let scaling_factor = basemap_max - basemap_min
      in if array_shape recorded_rainfall_raster \<noteq> array_shape base_map
            \<or> array_shape forecast_rainfall_raster \<noteq> array_shape base_map
         then Inl ShapeMismatch
         else
           let result =
                 map (\<lambda>(b, rec, fc).
                        fusion_result scaling_factor recorded_rainfall_weight
                          forecast_rainfall_weight b rec fc)
                   (zip (band base_map)
                      (zip (band recorded_rainfall_raster) (band forecast_rainfall_raster)))
           in Inr (base_map\<lparr>data_type := GDT_Float32, nodata_value := Some (- 128),
                             band := map (\<lambda>x. if x < 0 then - 128 else x) result\<rparr>))"


section \<open>main.py: the run\<close>

text \<open>
  The run of main.py as far as it decides which stages are computed. A file is known by
  its role (the paths of constants.py and main.py are pairwise different), the file system
  is the set of the files that exist, and every function of functions.py that drives the
  raster library leaves one entry in the list of calls, with the output file of the
  pipeline it works for. What the stages compute is the subject of the sections above; here
  a stage that runs succeeds and leaves its output file.
\<close>

datatype path =
  Folder_input | Folder_output | Folder_processed
  | Raw_vector_buffered | Raw_vector_exact
  | Raw_raster factor
  | Classified_raster factor
  | Information_raster
  | Raw_forecast_rainfall_csv | Raw_recorded_rainfall_csv
  | Base_landslide_susceptibility_map
  | Summed_rainfall_csv
  | Recorded_rainfall_raster
  | Forecast_csv nat
  | Forecast_raster nat
  | Final_map nat

datatype engine_function =
  Classify_raster | Clip_raster | Create_gridded_raster_from_csv | Reproject_raster
  | Resample_raster | Base_map_fusion | Create_final_landslide_susceptibility_map

type_synonym engine_call = "engine_function \<times> path"

record run_state =
  files :: "path set"
  calls :: "engine_call list"

datatype outcome = Finished | Exited | Raised error

record settings =
  final_weights :: FinalWeights
  flag_update_forecast_rasters :: int
  forecast_dates :: nat

text \<open>
  \<open>forecast_dates\<close> is the number of different values of the column \<^verbatim>\<open>forecast_date\<close> in
  the raw forecast csv: \<^verbatim>\<open>parse_rainfall_csv\<close> writes one csv for each and returns them
  under the keys 1, 2, ...

  The dataclasses of constants.py that check their paths when they are instantiated.
\<close>

definition FolderPaths_post_init :: "path set \<Rightarrow> error + unit" where
  "FolderPaths_post_init fs =
     (if list_all (\<lambda>p. p \<in> fs) [Folder_input, Folder_output, Folder_processed]
      then Inr () else Inl FileNotFoundError)"

definition RawVectorsFilePaths_post_init :: "path set \<Rightarrow> error + unit" where
  "RawVectorsFilePaths_post_init fs =
     (if list_all (\<lambda>p. p \<in> fs) [Raw_vector_buffered, Raw_vector_exact]
      then Inr () else Inl FileNotFoundError)"

definition RawRastersFilePaths_post_init :: "path set \<Rightarrow> error + unit" where
  "RawRastersFilePaths_post_init fs =
     (if list_all (\<lambda>p. p \<in> fs)
           (map Raw_raster [Slope, Curvature, Lulc, Ndvi, Aspect, River, Road, Fault, Soil])
      then Inr () else Inl FileNotFoundError)"

definition instantiate_dataclasses :: "settings \<Rightarrow> path set \<Rightarrow> error + unit" where
  "instantiate_dataclasses cfg fs =
     (case FolderPaths_post_init fs of
        Inl e \<Rightarrow> Inl e
      | Inr _ \<Rightarrow>
          (case RawVectorsFilePaths_post_init fs of
             Inl e \<Rightarrow> Inl e
           | Inr _ \<Rightarrow>
               (case RawRastersFilePaths_post_init fs of
                  Inl e \<Rightarrow> Inl e
                | Inr _ \<Rightarrow> FinalWeights_post_init (final_weights cfg))))"

definition run_pipeline :: "engine_function list \<Rightarrow> path \<Rightarrow> run_state \<Rightarrow> run_state" where
  "run_pipeline fns output s =
     s\<lparr>files := insert output (files s), calls := calls s @ map (\<lambda>f. (f, output)) fns\<rparr>"

definition constants_raster_pipeline :: "path \<Rightarrow> run_state \<Rightarrow> run_state" where
  "constants_raster_pipeline output_raster_filepath =
     run_pipeline [Classify_raster, Clip_raster] output_raster_filepath"

definition forecast_pipeline :: "path \<Rightarrow> run_state \<Rightarrow> run_state" where
  "forecast_pipeline output_raster_filepath =
     run_pipeline [Create_gridded_raster_from_csv, Reproject_raster, Resample_raster,
                   Clip_raster, Classify_raster] output_raster_filepath"

text \<open>The loop over the classified rasters of the constant factors.\<close>

fun classified_rasters_stage :: "factor list \<Rightarrow> run_state \<Rightarrow> run_state" where
  "classified_rasters_stage [] s = s"
| "classified_rasters_stage (raster_type # rest) s =
     classified_rasters_stage rest
       (if Classified_raster raster_type \<in> files s then s
        else constants_raster_pipeline (Classified_raster raster_type) s)"

definition base_map_stage :: "run_state \<Rightarrow> run_state" where
  "base_map_stage s =
     (if Base_landslide_susceptibility_map \<in> files s then s
      else run_pipeline [Base_map_fusion] Base_landslide_susceptibility_map s)"

text \<open>
  The recorded rainfall: the summed csv is written on every run (no raster is involved),
  the raster is made when its file does not exist.
\<close>

definition recorded_rainfall_stage :: "run_state \<Rightarrow> run_state" where
  "recorded_rainfall_stage s =
     (let s' = s\<lparr>files := insert Summed_rainfall_csv (files s)\<rparr>
      in if Recorded_rainfall_raster \<in> files s' then s'
         else forecast_pipeline Recorded_rainfall_raster s')"

text \<open>
  The forecast rasters, for \<^verbatim>\<open>FLAG_UPDATE_FORECAST_RASTERS == 1\<close>: the csv of every day is
  written, then the pipeline runs for every day.
\<close>

fun forecast_rasters_stage :: "nat list \<Rightarrow> run_state \<Rightarrow> run_state" where
  "forecast_rasters_stage [] s = s"
| "forecast_rasters_stage (forecast_day # rest) s =
     forecast_rasters_stage rest (forecast_pipeline (Forecast_raster forecast_day) s)"

fun final_maps_stage :: "nat list \<Rightarrow> run_state \<Rightarrow> run_state" where
  "final_maps_stage [] s = s"
| "final_maps_stage (forecast_day # rest) s =
     final_maps_stage rest
       (run_pipeline [Create_final_landslide_susceptibility_map] (Final_map forecast_day) s)"

definition forecast_days :: "nat \<Rightarrow> nat list" where
  "forecast_days n = map Suc [0..<n]"

definition main :: "settings \<Rightarrow> path set \<Rightarrow> outcome \<times> run_state" where
  "main cfg fs =
     (case instantiate_dataclasses cfg fs of
        Inl e \<Rightarrow> (Raised e, \<lparr>files = fs, calls = []\<rparr>)
      | Inr _ \<Rightarrow>
          let s1 = classified_rasters_stage factors \<lparr>files = fs, calls = []\<rparr>;
              s2 = base_map_stage s1
          in if Raw_recorded_rainfall_csv \<notin> files s2 then (Raised FileNotFoundError, s2)
             else
               let s3 = recorded_rainfall_stage s2
               in if flag_update_forecast_rasters cfg = 0 then (Exited, s3)
                  else if flag_update_forecast_rasters cfg = 1 then
                    (if Raw_forecast_rainfall_csv \<notin> files s3 then (Raised FileNotFoundError, s3)
                     else
                       let days = forecast_days (forecast_dates cfg);
                           s4 = forecast_rasters_stage days
                                  (s3\<lparr>files := files s3 \<union> Forecast_csv ` set days\<rparr>)
                       in if days = [] then (Exited, s4)
                          else (Finished, final_maps_stage days s4))
                  else (Exited, s3))"

text \<open>The files every stage with an existence check looks for.\<close>

definition cached_outputs :: "path set" where
  "cached_outputs =
     insert Base_landslide_susceptibility_map
       (insert Recorded_rainfall_raster (Classified_raster ` set factors))"


text \<open>
  A state of a run that started on the files \<open>fs\<close> has reused the outputs it found: every
  file of \<open>fs\<close> is still there, and no call was made for an output of a stage with an
  existence check that \<open>fs\<close> holds.
\<close>

definition reuses_outputs :: "path set \<Rightarrow> run_state \<Rightarrow> bool" where
  "reuses_outputs fs s =
     (fs \<subseteq> files s \<and> (\<forall>c \<in> set (calls s). snd c \<in> cached_outputs \<longrightarrow> snd c \<notin> fs))"

text \<open>The calls of the stages that have no existence check, for the forecast days given.\<close>

definition forecast_calls :: "nat list \<Rightarrow> engine_call list" where
  "forecast_calls days =
     concat (map (\<lambda>d. map (\<lambda>f. (f, Forecast_raster d))
                         [Create_gridded_raster_from_csv, Reproject_raster, Resample_raster,
                          Clip_raster, Classify_raster]) days)"

definition final_calls :: "nat list \<Rightarrow> engine_call list" where
  "final_calls days = map (\<lambda>d. (Create_final_landslide_susceptibility_map, Final_map d)) days"


section \<open>Example inputs\<close>

text \<open>
  A raster of three float32 cells with nodata value 0: a cell that several rules match, a
  nodata cell, and the curvature 0.005, which lies in the gap the default curvature rules
  leave between 0.001 and 0.01.
\<close>

definition example_raster :: raster where
  "example_raster =
     \<lparr>x_size = 3, y_size = 1, geotransform = [0, 30, 0, 0, 0, - 30], projection = ''EPSG:32645'',
      data_type = GDT_Float32, nodata_value = Some 0, band = [25, 0, float32 (1 / 200)]\<rparr>"

definition overlapping_rules :: "classification_rule list" where
  "overlapping_rules = [(None, Some 50, 1), (Some 10, Some 30, 2), (Some 20, None, 3)]"

text \<open>
  A weight table whose ten weights sum to 0.80: seven weights of 0.0625, two of 0.03125 and
  one of 0.3.
\<close>

definition weights_080 :: FinalWeights where
  "weights_080 =
     \<lparr>slope = 1 / 16, curvature = 1 / 16, lulc = 1 / 16, ndvi = 1 / 16, aspect = 1 / 16,
      river = 1 / 16, road = 1 / 16, fault = 1 / 32, soil = 1 / 32, geology = float64 (3 / 10)\<rparr>"

text \<open>
  A weight table whose nine checked weights are 0.15, 0.04, 0.03, 0.01, 0.07, 0.03, 0.03,
  0.08 and 0.06, which sum to 0.5 on paper.
\<close>

definition weights_050 :: FinalWeights where
  "weights_050 =
     \<lparr>slope = float64 (15 / 100), curvature = float64 (4 / 100), lulc = float64 (3 / 100),
      ndvi = float64 (1 / 100), aspect = float64 (7 / 100), river = float64 (3 / 100),
      road = float64 (3 / 100), fault = float64 (13 / 100), soil = float64 (8 / 100),
      geology = float64 (6 / 100)\<rparr>"

text \<open>
  Rasters of one cell.
\<close>

definition one_cell :: "gdal_data_type \<Rightarrow> real option \<Rightarrow> real \<Rightarrow> raster" where
  "one_cell t nd v =
     \<lparr>x_size = 1, y_size = 1, geotransform = [0, 30, 0, 0, 0, - 30], projection = ''EPSG:32645'',
      data_type = t, nodata_value = nd, band = [v]\<rparr>"

text \<open>
  A raster of one float32 cell that holds 0.01, the float32 number nearest to it, and two
  rules that meet at the bound 0.01.
\<close>

definition boundary_raster :: raster where
  "boundary_raster = one_cell GDT_Float32 (Some 0) (float32 (1 / 100))"

definition boundary_rules :: "classification_rule list" where
  "boundary_rules = [(None, Some (float64 (1 / 100)), 1), (Some (float64 (1 / 100)), None, 3)]"



text \<open>
  A run with the default weights, the update flag at 1 and one forecast date, on a file
  system that holds the inputs and no output; and a weight table whose slope weight is 0.
\<close>

definition example_settings :: settings where
  "example_settings =
     \<lparr>final_weights = default_FinalWeights, flag_update_forecast_rasters = 1,
      forecast_dates = 1\<rparr>"

definition raw_inputs :: "path set" where
  "raw_inputs =
     {Folder_input, Folder_output, Folder_processed, Raw_vector_buffered, Raw_vector_exact,
      Information_raster, Raw_forecast_rainfall_csv, Raw_recorded_rainfall_csv}
     \<union> Raw_raster ` set factors"

definition zero_slope_settings :: settings where
  "zero_slope_settings = example_settings\<lparr>final_weights := default_FinalWeights\<lparr>slope := 0\<rparr>\<rparr>"

text \<open>The inputs and, of the outputs, the classified slope raster alone.\<close>

definition slope_cached_inputs :: "path set" where
  "slope_cached_inputs = insert (Classified_raster Slope) raw_inputs"

lemmas classify_eval = example_raster_def overlapping_rules_def classify_raster_def
  classify_array_def input_nodata_def nodata_or_default_def assign_where_def fits_int8_def
  int8_of_float_def int8_wrap_def trunc_toward_zero_def spec_last_match_def
  boundary_raster_def boundary_rules_def one_cell_def


section \<open>Properties of the rounding\<close>

lemma two_powi_Suc: "(2::real) powi (e + 1) = 2 * 2 powi e"
  by (simp add: power_int_add)

lemma two_powi_pred: "(2::real) powi (e - 1) = 2 powi e / 2"
  by (simp add: power_int_diff)

lemma binary_exponent_bounds:
  "0 < a \<Longrightarrow> 2 powi (binary_exponent a) \<le> a \<and> a < 2 powi (binary_exponent a + 1)"
proof (induction a rule: binary_exponent.induct)
  case (1 a)
  show ?case
  proof (cases "2 \<le> a")
    case True
    then have e: "binary_exponent a = binary_exponent (a / 2) + 1"
      by (subst binary_exponent.simps) simp
    from "1.IH"(1) [OF True] True
    have "2 powi (binary_exponent (a / 2)) \<le> a / 2"
      "a / 2 < 2 powi (binary_exponent (a / 2) + 1)"
      by simp_all
    then show ?thesis
      unfolding e two_powi_Suc by simp
  next
    case False
    show ?thesis
    proof (cases "a < 1")
      case True
      with "1.prems" False have e: "binary_exponent a = binary_exponent (a * 2) - 1"
        by (subst binary_exponent.simps) simp
      from "1.IH"(2) [OF False] True "1.prems"
      have "2 powi (binary_exponent (a * 2)) \<le> a * 2"
        "a * 2 < 2 powi (binary_exponent (a * 2) + 1)"
        by simp_all
      then show ?thesis
        unfolding e by (simp add: two_powi_Suc two_powi_pred)
    next
      case notless: False
      with False have e: "binary_exponent a = 0"
        by (subst binary_exponent.simps) simp
      show ?thesis
        unfolding e using False notless by simp
    qed
  qed
qed

lemma two_powi_less_imp: "(2::real) powi m < 2 powi n \<Longrightarrow> m < n"
  using power_int_increasing [of n m "2::real"] by (cases "m < n") simp_all

lemma binary_exponent_eqI:
  assumes "2 powi e \<le> a" "a < 2 powi (e + 1)"
  shows "binary_exponent a = e"
proof -
  have "(0::real) < 2 powi e" by simp
  with assms(1) have pos: "0 < a" by linarith
  note b = binary_exponent_bounds [OF pos]
  have "(2::real) powi e < 2 powi (binary_exponent a + 1)"
    using assms(1) b by linarith
  then have 1: "e < binary_exponent a + 1" by (rule two_powi_less_imp)
  have "(2::real) powi (binary_exponent a) < 2 powi (e + 1)"
    using assms(2) b by linarith
  then have 2: "binary_exponent a < e + 1" by (rule two_powi_less_imp)
  from 1 2 show ?thesis by simp
qed

lemma binary_exponent_mono:
  assumes "0 < a" "a \<le> b"
  shows "binary_exponent a \<le> binary_exponent b"
proof -
  have "(2::real) powi (binary_exponent a) < 2 powi (binary_exponent b + 1)"
    using binary_exponent_bounds [of a] binary_exponent_bounds [of b] assms by linarith
  then have "binary_exponent a < binary_exponent b + 1" by (rule two_powi_less_imp)
  then show ?thesis by simp
qed

lemma py_round_of_int [simp]: "py_round (of_int n) = n"
  by (simp add: py_round_def)

lemma py_round_mono:
  assumes "x \<le> y"
  shows "py_round x \<le> py_round y"
proof -
  have le: "\<lfloor>x\<rfloor> \<le> \<lfloor>y\<rfloor>" using assms by (rule floor_mono)
  have upper_x: "py_round x \<le> \<lfloor>x\<rfloor> + 1"
    and lower_y: "\<lfloor>y\<rfloor> \<le> py_round y"
    by (simp_all add: py_round_def Let_def)
  show ?thesis
  proof (cases "\<lfloor>x\<rfloor> = \<lfloor>y\<rfloor>")
    case True
    with assms show ?thesis
      by (auto simp: py_round_def Let_def)
  next
    case False
    with le have "\<lfloor>x\<rfloor> + 1 \<le> \<lfloor>y\<rfloor>" by simp
    with upper_x lower_y show ?thesis by linarith
  qed
qed

lemma round_magnitude_nonneg: "0 \<le> a \<Longrightarrow> 0 \<le> round_magnitude p emin a"
proof -
  assume "0 \<le> a"
  then have "0 \<le> a / 2 powi (max (binary_exponent a) emin - int p + 1)" by simp
  then have "py_round 0 \<le> py_round (a / 2 powi (max (binary_exponent a) emin - int p + 1))"
    by (rule py_round_mono)
  then show ?thesis by (simp add: round_magnitude_def Let_def py_round_def)
qed

lemma round_magnitude_upper:
  assumes "0 < a"
  shows "round_magnitude p emin a \<le> 2 powi (max (binary_exponent a) emin + 1)"
proof -
  define e where "e = max (binary_exponent a) emin"
  define u :: real where "u = 2 powi (e - int p + 1)"
  have u: "0 < u" by (simp add: u_def)
  have "a < 2 powi (binary_exponent a + 1)"
    using binary_exponent_bounds [OF assms] by simp
  also have "\<dots> \<le> 2 powi (e + 1)"
    by (rule power_int_increasing) (simp_all add: e_def)
  finally have "a / u \<le> 2 powi (e + 1) / u"
    using u by (simp add: divide_right_mono)
  also have "2 powi (e + 1) / u = 2 powi (int p)"
    by (simp add: u_def power_int_diff [symmetric])
  also have "\<dots> = of_int (2 ^ p)" by simp
  finally have "py_round (a / u) \<le> py_round (of_int (2 ^ p))"
    by (rule py_round_mono)
  then have "of_int (py_round (a / u)) * u \<le> of_int (2 ^ p) * u"
    using u by (simp add: mult_right_mono del: of_int_power)
  also have "of_int (2 ^ p) * u = 2 powi (e + 1)"
    by (simp add: u_def power_int_add [symmetric] flip: power_int_of_nat)
  finally show ?thesis by (simp add: round_magnitude_def Let_def e_def u_def)
qed

lemma round_magnitude_lower:
  assumes "0 < a" "emin \<le> binary_exponent a" "0 < p"
  shows "2 powi (binary_exponent a) \<le> round_magnitude p emin a"
proof -
  define e where "e = binary_exponent a"
  define u :: real where "u = 2 powi (e - int p + 1)"
  have m: "max (binary_exponent a) emin = e" using assms(2) by (simp add: e_def)
  have u: "0 < u" by (simp add: u_def)
  have "2 powi e / u = 2 powi (int (p - 1))"
    using assms(3) by (simp add: u_def power_int_diff [symmetric] of_nat_diff)
  also have "\<dots> = of_int (2 ^ (p - 1))" by simp
  finally have q: "2 powi e / u = of_int (2 ^ (p - 1))" .
  have "2 powi e \<le> a"
    using binary_exponent_bounds [OF assms(1)] by (simp add: e_def)
  then have "2 powi e / u \<le> a / u"
    using u by (simp add: divide_right_mono)
  then have "py_round (of_int (2 ^ (p - 1))) \<le> py_round (a / u)"
    unfolding q by (rule py_round_mono)
  then have "2 ^ (p - 1) \<le> py_round (a / u)"
    by (simp only: py_round_of_int)
  then have "(of_int (2 ^ (p - 1)) :: real) \<le> of_int (py_round (a / u))"
    by (simp only: of_int_le_iff)
  then have "of_int (2 ^ (p - 1)) * u \<le> of_int (py_round (a / u)) * u"
    using u by (intro mult_right_mono) simp_all
  moreover have "of_int (2 ^ (p - 1)) * u = 2 powi e"
    using u unfolding q [symmetric] by simp
  ultimately have "2 powi e \<le> of_int (py_round (a / u)) * u" by (simp only:)
  then show ?thesis unfolding round_magnitude_def Let_def m u_def e_def .
qed

lemma round_magnitude_mono:
  assumes "0 \<le> a" "a \<le> b" "0 < p"
  shows "round_magnitude p emin a \<le> round_magnitude p emin b"
proof (cases "a = 0")
  case True
  have "round_magnitude p emin 0 = 0" by (simp add: round_magnitude_def py_round_def)
  with True round_magnitude_nonneg [of b p emin] assms show ?thesis by simp
next
  case False
  with assms have a: "0 < a" and b: "0 < b" by simp_all
  define ea where "ea = max (binary_exponent a) emin"
  define eb where "eb = max (binary_exponent b) emin"
  have le: "ea \<le> eb"
    using binary_exponent_mono [OF a assms(2)] by (simp add: ea_def eb_def)
  show ?thesis
  proof (cases "ea = eb")
    case True
    have "a / 2 powi (eb - int p + 1) \<le> b / 2 powi (eb - int p + 1)"
      using assms(2) by (simp add: divide_right_mono)
    then have "py_round (a / 2 powi (eb - int p + 1)) \<le> py_round (b / 2 powi (eb - int p + 1))"
      by (rule py_round_mono)
    then show ?thesis
      using True
      by (simp add: round_magnitude_def Let_def ea_def [symmetric] eb_def [symmetric]
          mult_right_mono)
  next
    case False
    with le have lt: "ea + 1 \<le> eb" by simp
    then have "emin < eb" by (simp add: ea_def)
    then have eb: "eb = binary_exponent b" and emin: "emin \<le> binary_exponent b"
      by (simp_all add: eb_def max_def split: if_splits)
    have "round_magnitude p emin a \<le> 2 powi (ea + 1)"
      using round_magnitude_upper [OF a] by (simp add: ea_def)
    also have "\<dots> \<le> 2 powi eb"
      using lt by (simp add: power_int_increasing)
    also have "\<dots> \<le> round_magnitude p emin b"
      using round_magnitude_lower [OF b emin assms(3)] by (simp add: eb)
    finally show ?thesis .
  qed
qed

text \<open>Rounding keeps the order of the numbers it rounds.\<close>

lemma binary_round_mono:
  assumes "x \<le> y" "0 < p"
  shows "binary_round p emin x \<le> binary_round p emin y"
proof -
  consider "0 \<le> x" | "x < 0" "0 \<le> y" | "y < 0" by linarith
  then show ?thesis
  proof cases
    case 1
    then have "round_magnitude p emin \<bar>x\<bar> \<le> round_magnitude p emin \<bar>y\<bar>"
      using assms by (intro round_magnitude_mono) simp_all
    moreover have "0 \<le> round_magnitude p emin \<bar>y\<bar>" by (simp add: round_magnitude_nonneg)
    ultimately show ?thesis
      using 1 assms(1) by (cases "x = 0"; cases "y = 0") (simp_all add: binary_round_def)
  next
    case 2
    have "0 \<le> round_magnitude p emin \<bar>x\<bar>" "0 \<le> round_magnitude p emin \<bar>y\<bar>"
      by (simp_all add: round_magnitude_nonneg)
    then show ?thesis
      using 2 by (cases "y = 0") (simp_all add: binary_round_def)
  next
    case 3
    then have "round_magnitude p emin \<bar>y\<bar> \<le> round_magnitude p emin \<bar>x\<bar>"
      using assms by (intro round_magnitude_mono) simp_all
    then show ?thesis
      using 3 assms(1) by (simp add: binary_round_def)
  qed
qed

lemma to_cell_type_mono: "x \<le> y \<Longrightarrow> to_cell_type t x \<le> to_cell_type t y"
  by (cases t) (simp_all add: float32_def float64_def binary_round_mono)

text \<open>The value of a rounding, from the binade of the number rounded.\<close>

lemma binary_round_eval:
  assumes "2 powi e \<le> \<bar>x\<bar>" "\<bar>x\<bar> < 2 powi (e + 1)" "emin \<le> e"
  shows "binary_round p emin x =
           sgn x * (of_int (py_round (\<bar>x\<bar> / 2 powi (e - int p + 1))) * 2 powi (e - int p + 1))"
  using binary_exponent_eqI [OF assms(1,2)] assms(3)
  by (simp add: binary_round_def round_magnitude_def Let_def max_def)

lemma binary_round_0 [simp]: "binary_round p emin 0 = 0"
  by (simp add: binary_round_def)

text \<open>The values of the roundings that the examples and the default tables need.\<close>

lemma float32_0: "float32 0 = 0"
  by (simp add: float32_def)

lemma float32_10: "float32 10 = 10"
  using binary_round_eval [of "3" "10" "- 126" 24]
  by (simp add: float32_def py_round_def Let_def)

lemma float32_20: "float32 20 = 20"
  using binary_round_eval [of "4" "20" "- 126" 24]
  by (simp add: float32_def py_round_def Let_def)

lemma float32_30: "float32 30 = 30"
  using binary_round_eval [of "4" "30" "- 126" 24]
  by (simp add: float32_def py_round_def Let_def)

lemma float32_50: "float32 50 = 50"
  using binary_round_eval [of "5" "50" "- 126" 24]
  by (simp add: float32_def py_round_def Let_def)

lemma float32_1_200: "float32 (1 / 200) = 5368709 / 1073741824"
  using binary_round_eval [of "- 8" "1 / 200" "- 126" 24]
  by (simp add: float32_def py_round_def Let_def)

lemma float32_1_100: "float32 (1 / 100) = 5368709 / 536870912"
  using binary_round_eval [of "- 7" "1 / 100" "- 126" 24]
  by (simp add: float32_def py_round_def Let_def)

lemma float64_1_1000: "float64 (1 / 1000) = 1152921504606847 / 1152921504606846976"
  using binary_round_eval [of "- 10" "1 / 1000" "- 1022" 53]
  by (simp add: float64_def py_round_def Let_def)

lemma float32_float64_1_1000:
  "float32 (1152921504606847 / 1152921504606846976) =
   8589935 / 8589934592"
  using binary_round_eval [of "- 10" "1152921504606847 / 1152921504606846976" "- 126" 24]
  by (simp add: float32_def py_round_def Let_def)

lemma float64_1_100: "float64 (1 / 100) = 5764607523034235 / 576460752303423488"
  using binary_round_eval [of "- 7" "1 / 100" "- 1022" 53]
  by (simp add: float64_def py_round_def Let_def)

lemma float32_float64_1_100:
  "float32 (5764607523034235 / 576460752303423488) =
   5368709 / 536870912"
  using binary_round_eval [of "- 7" "5764607523034235 / 576460752303423488" "- 126" 24]
  by (simp add: float32_def py_round_def Let_def)

lemmas float_eval = float32_0 float32_10 float32_20 float32_30 float32_50 float32_1_200
  float32_1_100 float64_1_1000 float32_float64_1_1000 float64_1_100 float32_float64_1_100

section \<open>Properties of classify_raster\<close>

lemma spec_last_match_Cons:
  "spec_last_match (rule # rules) x =
     (case spec_last_match rules x of
        Some c \<Rightarrow> Some c
      | None \<Rightarrow> if spec_rule_matches rule x then Some (snd (snd rule)) else None)"
  by (simp add: spec_last_match_def split: list.splits)

lemma rule_in_cell_type_code [simp]: "snd (snd (rule_in_cell_type t rule)) = snd (snd rule)"
  by (cases rule rule: prod_cases3) simp

lemma assign_where_nth:
  assumes "assign_where p array_ds v cls = Inr cls'" "length cls = length array_ds"
    "i < length array_ds"
  shows "length cls' = length array_ds \<and> cls' ! i = (if p (array_ds ! i) then v else cls ! i)
         \<and> fits_int8 v"
  using assms by (auto simp: assign_where_def split: if_splits)

text \<open>
  One rule, seen from one cell that is not nodata: the rule matches the cell as the
  specification words it, with the bounds converted to the cell type.
\<close>

lemma apply_rule_nth:
  assumes "apply_rule t nodata array_ds rule cls = Inr cls'" "length cls = length array_ds"
    "i < length array_ds" "array_ds ! i \<noteq> to_cell_type t nodata"
  shows "length cls' = length array_ds \<and>
         cls' ! i = (if spec_rule_matches (rule_in_cell_type t rule) (array_ds ! i)
                     then snd (snd rule) else cls ! i)"
  using assms
  by (cases "(t, nodata, array_ds, rule, cls)" rule: apply_rule.cases)
     (auto dest!: assign_where_nth)

lemma apply_rule_length:
  "apply_rule t nodata array_ds rule cls = Inr cls' \<Longrightarrow> length cls = length array_ds \<Longrightarrow>
   length cls' = length array_ds"
  by (cases "(t, nodata, array_ds, rule, cls)" rule: apply_rule.cases)
     (auto simp: assign_where_def split: if_splits)

lemma classify_loop_length:
  "classify_loop t nodata array_ds rules cls = Inr cls' \<Longrightarrow> length cls = length array_ds \<Longrightarrow>
   length cls' = length array_ds"
  by (induction rules arbitrary: cls) (auto split: sum.splits dest: apply_rule_length)

text \<open>
  The loop, seen from one cell that is not nodata: the cell ends with the code of the last
  matching rule, or keeps what it held when no rule matches.
\<close>

lemma classify_loop_nth:
  assumes "classify_loop t nodata array_ds rules cls = Inr cls'" "length cls = length array_ds"
    "i < length array_ds" "array_ds ! i \<noteq> to_cell_type t nodata"
  shows "cls' ! i =
           (case spec_last_match (map (rule_in_cell_type t) rules) (array_ds ! i) of
              None \<Rightarrow> cls ! i
            | Some c \<Rightarrow> c)"
  using assms
proof (induction rules arbitrary: cls)
  case Nil
  then show ?case by (simp add: spec_last_match_def)
next
  case (Cons rule rules)
  from Cons.prems(1) obtain cls1 where
    s1: "apply_rule t nodata array_ds rule cls = Inr cls1" and
    s2: "classify_loop t nodata array_ds rules cls1 = Inr cls'"
    by (auto split: sum.splits)
  from apply_rule_nth [OF s1 Cons.prems(2) Cons.prems(3) Cons.prems(4)]
  have l1: "length cls1 = length array_ds"
    and v1: "cls1 ! i = (if spec_rule_matches (rule_in_cell_type t rule) (array_ds ! i)
                         then snd (snd rule) else cls ! i)"
    by simp_all
  from Cons.IH [OF s2 l1 Cons.prems(3) Cons.prems(4)]
  show ?case by (simp add: spec_last_match_Cons v1 split: option.splits)
qed

text \<open>The loop returns on every specification whose rules are accepted.\<close>

lemma classify_loop_ok:
  "list_all rule_ok rules \<Longrightarrow> \<exists>cls'. classify_loop t nodata array_ds rules cls = Inr cls'"
proof (induction rules arbitrary: cls)
  case Nil
  then show ?case by simp
next
  case (Cons rule rules)
  obtain low high v where r: "rule = (low, high, v)" by (cases rule)
  with Cons.prems have "\<exists>cls1. apply_rule t nodata array_ds rule cls = Inr cls1"
    by (cases low; cases high) (auto simp: assign_where_def)
  then obtain cls1 where "apply_rule t nodata array_ds rule cls = Inr cls1" ..
  with Cons show ?case by auto
qed

lemma classify_loop_append:
  "classify_loop t nodata array_ds (rs1 @ rs2) cls =
     (case classify_loop t nodata array_ds rs1 cls of
        Inl e \<Rightarrow> Inl e
      | Inr cls1 \<Rightarrow> classify_loop t nodata array_ds rs2 cls1)"
  by (induction rs1 arbitrary: cls) (auto split: sum.splits)

lemma map2_keep: "length xs = length ys \<Longrightarrow> map2 (\<lambda>a c. c) xs ys = ys"
  by (induction xs ys rule: list_induct2) auto

lemma int8_wrap_fits: "fits_int8 (int8_wrap n)"
  unfolding fits_int8_def int8_wrap_def
  using pos_mod_bound [of 256 "n + 128"] pos_mod_sign [of 256 "n + 128"] by linarith

lemma assign_where_fits:
  "assign_where p array_ds v cls = Inr cls' \<Longrightarrow> list_all fits_int8 cls \<Longrightarrow>
   list_all fits_int8 cls'"
  by (auto simp: assign_where_def list_all_iff split: if_splits dest!: set_zip_rightD)

lemma apply_rule_fits:
  "apply_rule t nodata array_ds rule cls = Inr cls' \<Longrightarrow> list_all fits_int8 cls \<Longrightarrow>
   list_all fits_int8 cls'"
  by (cases "(t, nodata, array_ds, rule, cls)" rule: apply_rule.cases)
     (auto dest: assign_where_fits)

lemma classify_loop_fits:
  "classify_loop t nodata array_ds rules cls = Inr cls' \<Longrightarrow> list_all fits_int8 cls \<Longrightarrow>
   list_all fits_int8 cls'"
  by (induction rules arbitrary: cls) (auto split: sum.splits dest: apply_rule_fits)

lemma classify_array_ok:
  assumes "list_all rule_ok rules"
  obtains cls where
    "classify_loop t nodata array_ds rules
       (replicate (length array_ds) (int8_of_float nodata)) = Inr cls"
    "length cls = length array_ds" "list_all fits_int8 cls"
    "classify_array t nodata array_ds rules =
       Inr (map2 (\<lambda>a c. if a = to_cell_type t nodata then - 128 else c) array_ds cls)"
proof -
  from classify_loop_ok [OF assms] obtain cls where
    c: "classify_loop t nodata array_ds rules
          (replicate (length array_ds) (int8_of_float nodata)) = Inr cls"
    by blast
  have l: "length cls = length array_ds"
    using classify_loop_length [OF c] by simp
  have f: "list_all fits_int8 cls"
    using classify_loop_fits [OF c] by (simp add: list_all_iff int8_of_float_def int8_wrap_fits)
  show ?thesis using that [OF c l f] by (simp add: classify_array_def c)
qed

text \<open>
  C1. The claim: a cell that is not nodata ends with the class code of the last rule in
  declared order that matches its value, a rule without lower bound matching
  \<open>value < upper\<close>, one without upper bound \<open>value \<ge> lower\<close>, a bounded one
  \<open>lower \<le> value < upper\<close>. It fails at a Float32 raster whose cell is 0.01 as a float32
  number, which is below the Python float 0.01, with the rules \<open>(None, 0.01, 1)\<close> and
  \<open>(0.01, None, 3)\<close>: the cell is below the bound, so the last rule that matches it is the
  first one, with code 1; the program compares the cell with the bound converted to float32,
  which is the cell itself, and gives code 3.
\<close>

theorem classify_raster_boundary_cell:
  "band boundary_raster ! 0 < float64 (1 / 100) \<and>
   band boundary_raster ! 0 \<noteq> input_nodata boundary_raster \<and>
   spec_last_match boundary_rules (band boundary_raster ! 0) = Some 1 \<and>
   classify_raster boundary_raster (Some boundary_rules) =
     Inr (boundary_raster\<lparr>data_type := GDT_Int8, nodata_value := Some (- 128), band := [3]\<rparr>)"
  by (simp add: classify_eval float_eval)

text \<open>
  C1, amended. For every raster and every classification the program accepts, a cell whose
  value is not the input nodata value and that some rule matches ends, in the classified
  output, with the class code of the last rule in declared order that matches it, where the
  bounds of the rules and the nodata value are first converted to the cell type of the band
  (rounded to the nearest float32 number for a Float32 band): a rule without lower bound
  matches \<open>value < upper\<close>, one without upper bound \<open>value \<ge> lower\<close>, a bounded one
  \<open>lower \<le> value < upper\<close>, for the converted bounds.
\<close>

theorem classify_raster_last_match_wins:
  assumes "list_all rule_ok rules"
    and "i < length (band r)"
    and "band r ! i \<noteq> input_nodata r"
    and "spec_last_match (map (rule_in_cell_type (data_type r)) rules) (band r ! i) = Some c"
  shows "\<exists>out. classify_raster r (Some rules) = Inr out \<and> band out ! i = real_of_int c"
proof -
  let ?nodata = "nodata_or_default r"
  obtain cls where
    c: "classify_loop (data_type r) ?nodata (band r) rules
          (replicate (length (band r)) (int8_of_float ?nodata)) = Inr cls"
    and l: "length cls = length (band r)"
    and a: "classify_array (data_type r) ?nodata (band r) rules =
          Inr (map2 (\<lambda>a c. if a = to_cell_type (data_type r) ?nodata then - 128 else c)
                 (band r) cls)"
    using classify_array_ok [OF assms(1)] by metis
  have n: "band r ! i \<noteq> to_cell_type (data_type r) ?nodata"
    using assms(3) by (simp add: input_nodata_def)
  have "cls ! i = c"
    using classify_loop_nth [OF c _ assms(2) n] assms(4) by simp
  then show ?thesis
    using assms(2) n l by (simp add: classify_raster_def a)
qed

theorem classify_raster_last_match_wins_witness:
  "list_all rule_ok overlapping_rules \<and> 0 < length (band example_raster) \<and>
   band example_raster ! 0 \<noteq> input_nodata example_raster \<and>
   spec_last_match (map (rule_in_cell_type (data_type example_raster)) overlapping_rules)
     (band example_raster ! 0) = Some 3 \<and>
   (\<exists>out. classify_raster example_raster (Some overlapping_rules) = Inr out \<and> band out ! 0 = 3) \<and>
   list_all rule_ok boundary_rules \<and> 0 < length (band boundary_raster) \<and>
   band boundary_raster ! 0 \<noteq> input_nodata boundary_raster \<and>
   spec_last_match (map (rule_in_cell_type (data_type boundary_raster)) boundary_rules)
     (band boundary_raster ! 0) = Some 3 \<and>
   (\<exists>out. classify_raster boundary_raster (Some boundary_rules) = Inr out \<and> band out ! 0 = 3)"
proof -
  have h: "list_all rule_ok overlapping_rules" "0 < length (band example_raster)"
    "band example_raster ! 0 \<noteq> input_nodata example_raster"
    "spec_last_match (map (rule_in_cell_type (data_type example_raster)) overlapping_rules)
       (band example_raster ! 0) = Some 3"
    by (simp_all add: classify_eval float_eval)
  have b: "list_all rule_ok boundary_rules" "0 < length (band boundary_raster)"
    "band boundary_raster ! 0 \<noteq> input_nodata boundary_raster"
    "spec_last_match (map (rule_in_cell_type (data_type boundary_raster)) boundary_rules)
       (band boundary_raster ! 0) = Some 3"
    by (simp_all add: classify_eval float_eval)
  show ?thesis
    using classify_raster_last_match_wins [OF h] classify_raster_last_match_wins [OF b] h b
    by simp
qed

text \<open>
  C4. For every raster and every classification the program accepts, a cell that equals the
  input nodata value is \<open>-128\<close>, the nodata value of the output, in the classified output,
  whatever the rules cover.
\<close>

theorem classify_raster_nodata_wins:
  assumes "list_all rule_ok rules"
    and "i < length (band r)"
    and "band r ! i = input_nodata r"
  shows "\<exists>out. classify_raster r (Some rules) = Inr out \<and> nodata_value out = Some (- 128) \<and>
           band out ! i = - 128"
proof -
  let ?nodata = "nodata_or_default r"
  obtain cls where l: "length cls = length (band r)"
    and a: "classify_array (data_type r) ?nodata (band r) rules =
          Inr (map2 (\<lambda>a c. if a = to_cell_type (data_type r) ?nodata then - 128 else c)
                 (band r) cls)"
    using classify_array_ok [OF assms(1)] by metis
  have n: "band r ! i = to_cell_type (data_type r) ?nodata"
    using assms(3) by (simp add: input_nodata_def)
  show ?thesis
    using assms(2) n l by (simp add: classify_raster_def a)
qed

theorem classify_raster_nodata_wins_witness:
  "list_all rule_ok overlapping_rules \<and> 1 < length (band example_raster) \<and>
   band example_raster ! 1 = input_nodata example_raster \<and>
   spec_rule_matches (None, Some 50, 1) (band example_raster ! 1) \<and>
   (\<exists>out. classify_raster example_raster (Some overlapping_rules) = Inr out \<and>
      nodata_value out = Some (- 128) \<and> band out ! 1 = - 128)"
proof -
  have h: "list_all rule_ok overlapping_rules" "1 < length (band example_raster)"
    "band example_raster ! 1 = input_nodata example_raster"
    by (simp_all add: classify_eval float_eval)
  have "spec_rule_matches (None, Some 50, 1) (band example_raster ! 1)"
    by (simp add: classify_eval)
  then show ?thesis
    using classify_raster_nodata_wins [OF h] h by simp
qed

text \<open>
  What the program does with a cell that is not nodata and that no rule matches: the cell
  keeps the value the array was filled with, the input nodata value converted to int8.
\<close>

lemma classify_raster_unmatched_cell:
  assumes "list_all rule_ok rules"
    and "i < length (band r)"
    and "band r ! i \<noteq> input_nodata r"
    and "spec_last_match (map (rule_in_cell_type (data_type r)) rules) (band r ! i) = None"
  shows "\<exists>out. classify_raster r (Some rules) = Inr out \<and>
           band out ! i = real_of_int (int8_of_float (nodata_or_default r))"
proof -
  let ?nodata = "nodata_or_default r"
  obtain cls where
    c: "classify_loop (data_type r) ?nodata (band r) rules
          (replicate (length (band r)) (int8_of_float ?nodata)) = Inr cls"
    and l: "length cls = length (band r)"
    and a: "classify_array (data_type r) ?nodata (band r) rules =
          Inr (map2 (\<lambda>a c. if a = to_cell_type (data_type r) ?nodata then - 128 else c)
                 (band r) cls)"
    using classify_array_ok [OF assms(1)] by metis
  have n: "band r ! i \<noteq> to_cell_type (data_type r) ?nodata"
    using assms(3) by (simp add: input_nodata_def)
  have "cls ! i = int8_of_float ?nodata"
    using classify_loop_nth [OF c _ assms(2) n] assms(2,4) by simp
  then show ?thesis
    using assms(2) n l by (simp add: classify_raster_def a)
qed

text \<open>
  C6. The claim: a cell that is not nodata and that no rule matches is the nodata value of
  the output, \<open>-128\<close>. The program at a raster with nodata value 0 and the default curvature
  rules: the third cell, 0.005, matches no rule and comes out as 0, the converted input
  nodata value, while the output declares \<open>-128\<close> as nodata; the second cell, which is
  nodata in the input, comes out as \<open>-128\<close>.
\<close>

theorem classify_raster_unmatched_cell_not_nodata:
  "classify_raster example_raster (ClassificationParameters Curvature) =
     Inr (example_raster\<lparr>data_type := GDT_Int8, nodata_value := Some (- 128),
                         band := [3, - 128, 0]\<rparr>)"
  by (simp add: classify_eval float_eval)

text \<open>
  C5. The claim: with the pass-through specification the output is identical to the input.
  It fails at a raster of 32-bit floating-point cells with nodata value 0: the output is
  declared 8-bit integer with nodata value \<open>-128\<close>.
\<close>

theorem classify_raster_passthrough_not_identical:
  "classify_raster example_raster None \<noteq> Inr example_raster"
  by (simp add: classify_eval)

text \<open>
  C5, amended. With the pass-through specification the program hands the cells of the input
  to the writer unchanged, and size, geotransform and projection are those of the input; the
  output raster is declared 8-bit integer with nodata value \<open>-128\<close>, whatever the input
  declares.
\<close>

theorem classify_raster_passthrough:
  "classify_raster r None = Inr (r\<lparr>data_type := GDT_Int8, nodata_value := Some (- 128)\<rparr>)"
  by (simp add: classify_raster_def)



lemma apply_rule_empty_interval:
  assumes "hi \<le> lo" "fits_int8 c" "length cls = length array_ds"
  shows "apply_rule t nodata array_ds (Some lo, Some hi, c) cls = Inr cls"
proof -
  have "to_cell_type t hi \<le> to_cell_type t lo"
    using assms(1) by (rule to_cell_type_mono)
  then have "(\<lambda>a c'. if a \<ge> to_cell_type t lo \<and> a < to_cell_type t hi then c else c') =
             (\<lambda>a c'. c')"
    by (auto simp: fun_eq_iff)
  then show ?thesis using assms(2,3) by (simp add: assign_where_def map2_keep)
qed

text \<open>
  C9. The claim: a specification with a bounded rule whose lower bound is not below its
  upper bound is rejected before any cell is classified. It fails at the rule
  \<open>(20, 10, 1)\<close>: the program classifies the raster and returns it.
\<close>

theorem classify_raster_accepts_empty_interval:
  "classify_raster example_raster (Some [(Some 20, Some 10, 1)]) =
     Inr (example_raster\<lparr>data_type := GDT_Int8, nodata_value := Some (- 128),
                         band := [0, - 128, 0]\<rparr>)"
  by (simp add: classify_eval float_eval)

text \<open>
  C9, amended. A bounded rule whose lower bound is not below its upper bound is accepted
  (its code being an int8) and matches no cell: the classification is the one the
  specification gives without that rule.
\<close>

theorem classify_raster_empty_interval_ignored:
  assumes "hi \<le> lo" "fits_int8 c"
  shows "classify_raster r (Some (rs1 @ (Some lo, Some hi, c) # rs2)) =
         classify_raster r (Some (rs1 @ rs2))"
proof -
  have "classify_loop t nodata array_ds (rs1 @ (Some lo, Some hi, c) # rs2) cls =
        classify_loop t nodata array_ds (rs1 @ rs2) cls"
    if "length cls = length array_ds" for t nodata array_ds cls
  proof (cases "classify_loop t nodata array_ds rs1 cls")
    case (Inl e)
    then show ?thesis by (simp add: classify_loop_append)
  next
    case (Inr cls1)
    then have "length cls1 = length array_ds"
      using classify_loop_length that by blast
    then show ?thesis
      using Inr apply_rule_empty_interval [OF assms, of cls1 array_ds t nodata]
      by (simp add: classify_loop_append del: apply_rule.simps)
  qed
  then show ?thesis by (simp add: classify_raster_def classify_array_def)
qed

theorem classify_raster_empty_interval_ignored_witness:
  "(10::real) \<le> 20 \<and> fits_int8 1 \<and>
   classify_raster example_raster
     (Some ([(None, Some 50, 1)] @ (Some 20, Some 10, 1) # [(Some 20, None, 3)])) =
   classify_raster example_raster (Some ([(None, Some 50, 1)] @ [(Some 20, None, 3)]))"
proof -
  have h: "(10::real) \<le> 20" "fits_int8 1" by (simp_all add: fits_int8_def)
  show ?thesis
    using classify_raster_empty_interval_ignored
      [OF h, of example_raster "[(None, Some 50, 1)]" "[(Some 20, None, 3)]"] h
    by simp
qed

section \<open>Properties of the weight validation\<close>

lemma py_round_eq_1: "py_round x = 1 \<longleftrightarrow> 1 / 2 < x \<and> x < 3 / 2"
proof -
  have f: "of_int \<lfloor>x\<rfloor> \<le> x" "x < of_int \<lfloor>x\<rfloor> + 1" by linarith+
  consider "\<lfloor>x\<rfloor> \<le> - 1" | "\<lfloor>x\<rfloor> = 0" | "\<lfloor>x\<rfloor> = 1" | "\<lfloor>x\<rfloor> \<ge> 2" by linarith
  then show ?thesis
  proof cases
    case 1
    then have "x < 0" "\<lfloor>x\<rfloor> \<noteq> 0" "\<lfloor>x\<rfloor> \<noteq> 1" using f by linarith+
    then show ?thesis by (auto simp: py_round_def Let_def)
  next
    case 2
    with f show ?thesis by (auto simp: py_round_def Let_def)
  next
    case 3
    with f show ?thesis by (auto simp: py_round_def Let_def)
  next
    case 4
    then have "x \<ge> 2" "\<lfloor>x\<rfloor> \<noteq> 0" "\<lfloor>x\<rfloor> \<noteq> 1" using f by linarith+
    then show ?thesis by (auto simp: py_round_def Let_def)
  qed
qed

text \<open>
  The weights of the default table and of the example as binary64 numbers, and the steps of
  their sums.
\<close>

lemma float64_15_100: "float64 (15 / 100) = 5404319552844595 / 36028797018963968"
  using binary_round_eval [of "- 3" "15 / 100" "- 1022" 53]
  by (simp add: float64_def py_round_def Let_def)

lemma float64_8_100: "float64 (8 / 100) = 5764607523034235 / 72057594037927936"
  using binary_round_eval [of "- 4" "8 / 100" "- 1022" 53]
  by (simp add: float64_def py_round_def Let_def)

lemma float64_9_100: "float64 (9 / 100) = 3242591731706757 / 36028797018963968"
  using binary_round_eval [of "- 4" "9 / 100" "- 1022" 53]
  by (simp add: float64_def py_round_def Let_def)

lemma float64_7_100: "float64 (7 / 100) = 1261007895663739 / 18014398509481984"
  using binary_round_eval [of "- 4" "7 / 100" "- 1022" 53]
  by (simp add: float64_def py_round_def Let_def)

lemma float64_1_10: "float64 (1 / 10) = 3602879701896397 / 36028797018963968"
  using binary_round_eval [of "- 4" "1 / 10" "- 1022" 53]
  by (simp add: float64_def py_round_def Let_def)

lemma float64_12_100: "float64 (12 / 100) = 1080863910568919 / 9007199254740992"
  using binary_round_eval [of "- 4" "12 / 100" "- 1022" 53]
  by (simp add: float64_def py_round_def Let_def)

lemma float64_3_10: "float64 (3 / 10) = 5404319552844595 / 18014398509481984"
  using binary_round_eval [of "- 2" "3 / 10" "- 1022" 53]
  by (simp add: float64_def py_round_def Let_def)

lemma float64_8_10: "float64 (8 / 10) = 3602879701896397 / 4503599627370496"
  using binary_round_eval [of "- 1" "8 / 10" "- 1022" 53]
  by (simp add: float64_def py_round_def Let_def)

lemma py_add_default_1:
  "py_add 0
     (5404319552844595 / 36028797018963968) =
   5404319552844595 / 36028797018963968"
  unfolding py_add_def
  using binary_round_eval [of "- 3" "0 + 5404319552844595 / 36028797018963968" "- 1022" 53]
  by (simp add: float64_def py_round_def Let_def)

lemma py_add_default_2:
  "py_add (5404319552844595 / 36028797018963968)
     (5764607523034235 / 72057594037927936) =
   517913957147607 / 2251799813685248"
  unfolding py_add_def
  using binary_round_eval
    [of "- 3"
        "5404319552844595 / 36028797018963968 +
         5764607523034235 / 72057594037927936"
        "- 1022" 53]
  by (simp add: float64_def py_round_def Let_def)

lemma py_add_default_3:
  "py_add (517913957147607 / 2251799813685248)
     (3242591731706757 / 36028797018963968) =
   2882303761517117 / 9007199254740992"
  unfolding py_add_def
  using binary_round_eval
    [of "- 2"
        "517913957147607 / 2251799813685248 +
         3242591731706757 / 36028797018963968"
        "- 1022" 53]
  by (simp add: float64_def py_round_def Let_def)

lemma py_add_default_4:
  "py_add (2882303761517117 / 9007199254740992)
     (5764607523034235 / 72057594037927936) =
   7205759403792793 / 18014398509481984"
  unfolding py_add_def
  using binary_round_eval
    [of "- 2"
        "2882303761517117 / 9007199254740992 +
         5764607523034235 / 72057594037927936"
        "- 1022" 53]
  by (simp add: float64_def py_round_def Let_def)

lemma py_add_default_5:
  "py_add (7205759403792793 / 18014398509481984)
     (3242591731706757 / 36028797018963968) =
   2206763817411543 / 4503599627370496"
  unfolding py_add_def
  using binary_round_eval
    [of "- 2"
        "7205759403792793 / 18014398509481984 +
         3242591731706757 / 36028797018963968"
        "- 1022" 53]
  by (simp add: float64_def py_round_def Let_def)

lemma py_add_default_6:
  "py_add (2206763817411543 / 4503599627370496)
     (1261007895663739 / 18014398509481984) =
   1261007895663739 / 2251799813685248"
  unfolding py_add_def
  using binary_round_eval
    [of "- 1"
        "2206763817411543 / 4503599627370496 +
         1261007895663739 / 18014398509481984"
        "- 1022" 53]
  by (simp add: float64_def py_round_def Let_def)

lemma py_add_default_7:
  "py_add (1261007895663739 / 2251799813685248)
     (3242591731706757 / 36028797018963968) =
   5854679515581645 / 9007199254740992"
  unfolding py_add_def
  using binary_round_eval
    [of "- 1"
        "1261007895663739 / 2251799813685248 +
         3242591731706757 / 36028797018963968"
        "- 1022" 53]
  by (simp add: float64_def py_round_def Let_def)

lemma py_add_default_8:
  "py_add (5854679515581645 / 9007199254740992)
     (3602879701896397 / 36028797018963968) =
   3 / 4"
  unfolding py_add_def
  using binary_round_eval
    [of "- 1"
        "5854679515581645 / 9007199254740992 +
         3602879701896397 / 36028797018963968"
        "- 1022" 53]
  by (simp add: float64_def py_round_def Let_def)

lemma py_add_default_9:
  "py_add (3 / 4)
     (1080863910568919 / 9007199254740992) =
   7836263351624663 / 9007199254740992"
  unfolding py_add_def
  using binary_round_eval [of "- 1" "3 / 4 + 1080863910568919 / 9007199254740992" "- 1022" 53]
  by (simp add: float64_def py_round_def Let_def)

lemma py_add_080_1: "py_add 0 (1 / 16) = 1 / 16"
  unfolding py_add_def
  using binary_round_eval [of "- 4" "0 + 1 / 16" "- 1022" 53]
  by (simp add: float64_def py_round_def Let_def)

lemma py_add_080_2: "py_add (1 / 16) (1 / 16) = 1 / 8"
  unfolding py_add_def
  using binary_round_eval [of "- 3" "1 / 16 + 1 / 16" "- 1022" 53]
  by (simp add: float64_def py_round_def Let_def)

lemma py_add_080_3: "py_add (1 / 8) (1 / 16) = 3 / 16"
  unfolding py_add_def
  using binary_round_eval [of "- 3" "1 / 8 + 1 / 16" "- 1022" 53]
  by (simp add: float64_def py_round_def Let_def)

lemma py_add_080_4: "py_add (3 / 16) (1 / 16) = 1 / 4"
  unfolding py_add_def
  using binary_round_eval [of "- 2" "3 / 16 + 1 / 16" "- 1022" 53]
  by (simp add: float64_def py_round_def Let_def)

lemma py_add_080_5: "py_add (1 / 4) (1 / 16) = 5 / 16"
  unfolding py_add_def
  using binary_round_eval [of "- 2" "1 / 4 + 1 / 16" "- 1022" 53]
  by (simp add: float64_def py_round_def Let_def)

lemma py_add_080_6: "py_add (5 / 16) (1 / 16) = 3 / 8"
  unfolding py_add_def
  using binary_round_eval [of "- 2" "5 / 16 + 1 / 16" "- 1022" 53]
  by (simp add: float64_def py_round_def Let_def)

lemma py_add_080_7: "py_add (3 / 8) (1 / 16) = 7 / 16"
  unfolding py_add_def
  using binary_round_eval [of "- 2" "3 / 8 + 1 / 16" "- 1022" 53]
  by (simp add: float64_def py_round_def Let_def)

lemma py_add_080_8: "py_add (7 / 16) (1 / 32) = 15 / 32"
  unfolding py_add_def
  using binary_round_eval [of "- 2" "7 / 16 + 1 / 32" "- 1022" 53]
  by (simp add: float64_def py_round_def Let_def)

lemma py_add_080_9: "py_add (15 / 32) (1 / 32) = 1 / 2"
  unfolding py_add_def
  using binary_round_eval [of "- 1" "15 / 32 + 1 / 32" "- 1022" 53]
  by (simp add: float64_def py_round_def Let_def)

lemma py_add_080_10:
  "py_add (1 / 2)
     (5404319552844595 / 18014398509481984) =
   3602879701896397 / 4503599627370496"
  unfolding py_add_def
  using binary_round_eval [of "- 1" "1 / 2 + 5404319552844595 / 18014398509481984" "- 1022" 53]
  by (simp add: float64_def py_round_def Let_def)

lemma py_add_080_checked_9:
  "py_add (15 / 32)
     (5404319552844595 / 18014398509481984) =
   3462142213541069 / 4503599627370496"
  unfolding py_add_def
  using binary_round_eval
    [of "- 1"
        "15 / 32 +
         5404319552844595 / 18014398509481984"
        "- 1022" 53]
  by (simp add: float64_def py_round_def Let_def)

text \<open>The sum that the validation of the default table rounds is the float 0.87.\<close>

lemma default_weight_values:
  "weight_values default_FinalWeights =
     [5404319552844595 / 36028797018963968, 5764607523034235 / 72057594037927936,
      3242591731706757 / 36028797018963968, 5764607523034235 / 72057594037927936,
      3242591731706757 / 36028797018963968, 1261007895663739 / 18014398509481984,
      3242591731706757 / 36028797018963968, 3602879701896397 / 36028797018963968,
      1080863910568919 / 9007199254740992]"
  unfolding weight_values_def default_FinalWeights_def
    float64_15_100 float64_8_100 float64_9_100 float64_7_100 float64_1_10 float64_12_100
  by simp

lemma default_weight_sum:
  "py_sum (weight_values default_FinalWeights) = 7836263351624663 / 9007199254740992"
  unfolding default_weight_values py_sum_def
  by (simp add: py_add_default_1 py_add_default_2 py_add_default_3 py_add_default_4 py_add_default_5
      py_add_default_6 py_add_default_7 py_add_default_8 py_add_default_9)

lemma default_FinalWeights_ok: "FinalWeights_post_init default_FinalWeights = Inr ()"
  unfolding FinalWeights_post_init_def default_weight_sum
  by (simp add: default_weight_values py_round_def Let_def)

lemma float64_4_100: "float64 (4 / 100) = 5764607523034235 / 144115188075855872"
  using binary_round_eval [of "- 5" "4 / 100" "- 1022" 53]
  by (simp add: float64_def py_round_def Let_def)

lemma float64_3_100: "float64 (3 / 100) = 1080863910568919 / 36028797018963968"
  using binary_round_eval [of "- 6" "3 / 100" "- 1022" 53]
  by (simp add: float64_def py_round_def Let_def)

lemma float64_6_100: "float64 (6 / 100) = 1080863910568919 / 18014398509481984"
  using binary_round_eval [of "- 5" "6 / 100" "- 1022" 53]
  by (simp add: float64_def py_round_def Let_def)

lemma py_add_050_2:
  "py_add (5404319552844595 / 36028797018963968)
     (5764607523034235 / 144115188075855872) =
   3422735716801577 / 18014398509481984"
  unfolding py_add_def
  using binary_round_eval
    [of "- 3"
        "5404319552844595 / 36028797018963968 +
         5764607523034235 / 144115188075855872"
        "- 1022" 53]
  by (simp add: float64_def py_round_def Let_def)

lemma py_add_050_3:
  "py_add (3422735716801577 / 18014398509481984)
     (1080863910568919 / 36028797018963968) =
   7926335344172073 / 36028797018963968"
  unfolding py_add_def
  using binary_round_eval
    [of "- 3"
        "3422735716801577 / 18014398509481984 +
         1080863910568919 / 36028797018963968"
        "- 1022" 53]
  by (simp add: float64_def py_round_def Let_def)

lemma py_add_050_4:
  "py_add (7926335344172073 / 36028797018963968)
     (5764607523034235 / 576460752303423488) =
   8286623314361713 / 36028797018963968"
  unfolding py_add_def
  using binary_round_eval
    [of "- 3"
        "7926335344172073 / 36028797018963968 +
         5764607523034235 / 576460752303423488"
        "- 1022" 53]
  by (simp add: float64_def py_round_def Let_def)

lemma py_add_050_5:
  "py_add (8286623314361713 / 36028797018963968)
     (1261007895663739 / 18014398509481984) =
   1351079888211149 / 4503599627370496"
  unfolding py_add_def
  using binary_round_eval
    [of "- 2"
        "8286623314361713 / 36028797018963968 +
         1261007895663739 / 18014398509481984"
        "- 1022" 53]
  by (simp add: float64_def py_round_def Let_def)

lemma py_add_050_6:
  "py_add (1351079888211149 / 4503599627370496)
     (1080863910568919 / 36028797018963968) =
   185773484629033 / 562949953421312"
  unfolding py_add_def
  using binary_round_eval
    [of "- 2"
        "1351079888211149 / 4503599627370496 +
         1080863910568919 / 36028797018963968"
        "- 1022" 53]
  by (simp add: float64_def py_round_def Let_def)

lemma py_add_050_7:
  "py_add (185773484629033 / 562949953421312)
     (1080863910568919 / 36028797018963968) =
   1621295865853379 / 4503599627370496"
  unfolding py_add_def
  using binary_round_eval
    [of "- 2"
        "185773484629033 / 562949953421312 +
         1080863910568919 / 36028797018963968"
        "- 1022" 53]
  by (simp add: float64_def py_round_def Let_def)

lemma py_add_050_8:
  "py_add (1621295865853379 / 4503599627370496)
     (5764607523034235 / 72057594037927936) =
   7926335344172075 / 18014398509481984"
  unfolding py_add_def
  using binary_round_eval
    [of "- 2"
        "1621295865853379 / 4503599627370496 +
         5764607523034235 / 72057594037927936"
        "- 1022" 53]
  by (simp add: float64_def py_round_def Let_def)

lemma py_add_050_9:
  "py_add (7926335344172075 / 18014398509481984)
     (1080863910568919 / 18014398509481984) =
   4503599627370497 / 9007199254740992"
  unfolding py_add_def
  using binary_round_eval
    [of "- 1"
        "7926335344172075 / 18014398509481984 +
         1080863910568919 / 18014398509481984"
        "- 1022" 53]
  by (simp add: float64_def py_round_def Let_def)

text \<open>
  The weights of the table checked at the bound: their sum as real numbers is at most 0.5,
  and the float that Python's addition gives is above it.
\<close>

lemma weights_050_values:
  "weight_values weights_050 =
     [5404319552844595 / 36028797018963968, 5764607523034235 / 144115188075855872,
      1080863910568919 / 36028797018963968, 5764607523034235 / 576460752303423488,
      1261007895663739 / 18014398509481984, 1080863910568919 / 36028797018963968,
      1080863910568919 / 36028797018963968, 5764607523034235 / 72057594037927936,
      1080863910568919 / 18014398509481984]"
  unfolding weight_values_def weights_050_def
    float64_15_100 float64_4_100 float64_3_100 float64_1_100 float64_7_100 float64_8_100
    float64_6_100
  by simp

lemma weights_050_sum:
  "py_sum (weight_values weights_050) = 4503599627370497 / 9007199254740992"
  unfolding weights_050_values py_sum_def
  by (simp add: py_add_default_1 py_add_050_2 py_add_050_3 py_add_050_4 py_add_050_5
      py_add_050_6 py_add_050_7 py_add_050_8 py_add_050_9)

text \<open>
  C7. The claim: a weight table whose sum is 0.80 is rejected. It fails at the table with
  seven weights of 0.0625, two of 0.03125 and one of 0.3: the sum of the ten weights is
  the float 0.8, and the validation accepts the table.
\<close>

theorem FinalWeights_sum_080_accepted:
  "py_sum (map (weight_of weights_080) factors) = float64 (8 / 10) \<and>
   FinalWeights_post_init weights_080 = Inr ()"
proof -
  have all_weights: "map (weight_of weights_080) factors =
      [1 / 16, 1 / 16, 1 / 16, 1 / 16, 1 / 16, 1 / 16, 1 / 16, 1 / 32, 1 / 32,
       5404319552844595 / 18014398509481984]"
    unfolding weights_080_def float64_3_10 by (simp add: factors_def)
  have checked: "weight_values weights_080 =
      [1 / 16, 1 / 16, 1 / 16, 1 / 16, 1 / 16, 1 / 16, 1 / 16, 1 / 32,
       5404319552844595 / 18014398509481984]"
    unfolding weights_080_def float64_3_10 by (simp add: weight_values_def)
  have all_sum: "py_sum (map (weight_of weights_080) factors) =
      3602879701896397 / 4503599627370496"
    unfolding all_weights py_sum_def
    by (simp add: py_add_080_1 py_add_080_2 py_add_080_3 py_add_080_4 py_add_080_5
        py_add_080_6 py_add_080_7 py_add_080_8 py_add_080_9 py_add_080_10)
  have checked_sum: "py_sum (weight_values weights_080) = 3462142213541069 / 4503599627370496"
    unfolding checked py_sum_def
    by (simp add: py_add_080_1 py_add_080_2 py_add_080_3 py_add_080_4 py_add_080_5
        py_add_080_6 py_add_080_7 py_add_080_8 py_add_080_checked_9)
  have "FinalWeights_post_init weights_080 = Inr ()"
    unfolding FinalWeights_post_init_def checked_sum
    by (simp add: checked py_round_def Let_def)
  with all_sum show ?thesis
    unfolding float64_8_10 by simp
qed

lemma instantiate_dataclasses_weights:
  assumes "FinalWeights_post_init (final_weights cfg) \<noteq> Inr ()"
  shows "\<exists>e. instantiate_dataclasses cfg fs = Inl e"
proof -
  obtain e where e: "FinalWeights_post_init (final_weights cfg) = Inl e"
    using assms by (cases "FinalWeights_post_init (final_weights cfg)") auto
  show ?thesis
    by (simp add: instantiate_dataclasses_def e split: sum.splits)
qed

text \<open>
  C7, amended. The validation raises ValueError when one of the weights it checks is zero,
  whatever the sum, and otherwise when the sum of the weights it checks, as Python's float
  addition gives it, does not round to 1 under Python's \<^verbatim>\<open>round\<close>, which is when that float
  is at most 0.5 or at least 1.5; every other table is accepted, so sums of 0.97 and of 0.80
  both are. A table the validation refuses stops the run with an error before any call of
  the raster library.
\<close>

theorem FinalWeights_post_init_cases:
  "FinalWeights_post_init w =
     (if 0 \<in> set (weight_values w) then Inl (ValueError ''All weights must be non-zero.'')
      else if py_sum (weight_values w) \<le> 1 / 2 \<or> 3 / 2 \<le> py_sum (weight_values w)
      then Inl (ValueError ''Ensure that the sum of all weights is 1.'')
      else Inr ()) \<and>
   (FinalWeights_post_init (final_weights cfg) \<noteq> Inr () \<longrightarrow>
      (\<exists>e. main cfg fs = (Raised e, \<lparr>files = fs, calls = []\<rparr>)))"
proof
  have "list_ex (\<lambda>weight. weight = 0) (weight_values w) \<longleftrightarrow> 0 \<in> set (weight_values w)"
    by (auto simp: list_ex_iff)
  then show "FinalWeights_post_init w =
     (if 0 \<in> set (weight_values w) then Inl (ValueError ''All weights must be non-zero.'')
      else if py_sum (weight_values w) \<le> 1 / 2 \<or> 3 / 2 \<le> py_sum (weight_values w)
      then Inl (ValueError ''Ensure that the sum of all weights is 1.'')
      else Inr ())"
    unfolding FinalWeights_post_init_def using py_round_eq_1 [of "py_sum (weight_values w)"]
    by (auto simp: not_less)
next
  show "FinalWeights_post_init (final_weights cfg) \<noteq> Inr () \<longrightarrow>
      (\<exists>e. main cfg fs = (Raised e, \<lparr>files = fs, calls = []\<rparr>))"
  proof
    assume "FinalWeights_post_init (final_weights cfg) \<noteq> Inr ()"
    then obtain e where "instantiate_dataclasses cfg fs = Inl e"
      using instantiate_dataclasses_weights by blast
    then show "\<exists>e. main cfg fs = (Raised e, \<lparr>files = fs, calls = []\<rparr>)"
      by (simp add: main_def)
  qed
qed

theorem FinalWeights_post_init_cases_witness:
  "FinalWeights_post_init (final_weights zero_slope_settings) =
     Inl (ValueError ''All weights must be non-zero.'') \<and>
   FinalWeights_post_init (final_weights zero_slope_settings) \<noteq> Inr () \<and>
   (\<exists>e. main zero_slope_settings raw_inputs = (Raised e, \<lparr>files = raw_inputs, calls = []\<rparr>)) \<and>
   0 \<notin> set (weight_values weights_050) \<and>
   sum_list (weight_values weights_050) \<le> 1 / 2 \<and>
   1 / 2 < py_sum (weight_values weights_050) \<and>
   FinalWeights_post_init weights_050 = Inr ()"
proof -
  have z: "0 \<in> set (weight_values (final_weights zero_slope_settings))"
    by (simp add: zero_slope_settings_def example_settings_def weight_values_def)
  have n: "0 \<notin> set (weight_values weights_050)"
    unfolding weights_050_values by simp
  have r: "sum_list (weight_values weights_050) \<le> 1 / 2"
    unfolding weights_050_values by simp
  have f: "1 / 2 < py_sum (weight_values weights_050)"
    "py_sum (weight_values weights_050) < 3 / 2"
    unfolding weights_050_sum by simp_all
  have "FinalWeights_post_init weights_050 = Inr ()"
    using FinalWeights_post_init_cases [of weights_050 zero_slope_settings raw_inputs] n f
    by simp
  then show ?thesis
    using FinalWeights_post_init_cases
      [of "final_weights zero_slope_settings" zero_slope_settings raw_inputs] z n r f
    by simp
qed

section \<open>Properties of the base susceptibility map\<close>






section \<open>Properties of the rainfall-adjusted fusion\<close>

text \<open>
  C3. For every cell of three rasters of one shape, with \<open>scalingFactor\<close> the maximum less
  the minimum of the base map, the base cell forced to \<open>-128\<close> when it is at most 0 and the
  rainfall cells when they are below 0, the function computes
  \<open>result = base + (scalingFactor / base) * recorded * recordedWeight
    + (scalingFactor / base) * forecast * forecastWeight\<close>
  and writes it, or \<open>-128\<close> in its place when it is negative. The witness is the case of the
  specification: base 100 with minimum 0 and maximum 200, recorded 10 with weight 0.02,
  forecast 5 with weight 0.1, result 101.4.
\<close>

theorem create_final_landslide_susceptibility_map_cell:
  assumes "array_shape recorded = array_shape base" "array_shape forecast = array_shape base"
    and "i < length (band base)" "i < length (band recorded)" "i < length (band forecast)"
  shows "\<exists>out. create_final_landslide_susceptibility_map bmin bmax base recorded forecast
                  rw fw = Inr out \<and>
           data_type out = GDT_Float32 \<and> nodata_value out = Some (- 128) \<and>
           band out ! i =
             (let b = (if band base ! i \<le> 0 then - 128 else band base ! i);
                  r = (if band recorded ! i < 0 then - 128 else band recorded ! i);
                  f = (if band forecast ! i < 0 then - 128 else band forecast ! i);
                  result = b + ((bmax - bmin) / b) * r * rw + ((bmax - bmin) / b) * f * fw
              in if result < 0 then - 128 else result)"
  using assms
  by (simp add: create_final_landslide_susceptibility_map_def fusion_result_def Let_def)

theorem create_final_landslide_susceptibility_map_cell_witness:
  "array_shape (one_cell GDT_Int8 (Some (- 128)) 10) =
     array_shape (one_cell GDT_Float32 (Some (- 128)) 100) \<and>
   array_shape (one_cell GDT_Int8 (Some (- 128)) 5) =
     array_shape (one_cell GDT_Float32 (Some (- 128)) 100) \<and>
   0 < length (band (one_cell GDT_Float32 (Some (- 128)) 100)) \<and>
   0 < length (band (one_cell GDT_Int8 (Some (- 128)) 10)) \<and>
   0 < length (band (one_cell GDT_Int8 (Some (- 128)) 5)) \<and>
   (\<exists>out. create_final_landslide_susceptibility_map 0 200
            (one_cell GDT_Float32 (Some (- 128)) 100)
            (one_cell GDT_Int8 (Some (- 128)) 10) (one_cell GDT_Int8 (Some (- 128)) 5)
            (2 / 100) (1 / 10) = Inr out \<and>
          data_type out = GDT_Float32 \<and> nodata_value out = Some (- 128) \<and>
          band out ! 0 = 1014 / 10)"
proof -
  have h: "array_shape (one_cell GDT_Int8 (Some (- 128)) 10) =
             array_shape (one_cell GDT_Float32 (Some (- 128)) 100)"
    "array_shape (one_cell GDT_Int8 (Some (- 128)) 5) =
       array_shape (one_cell GDT_Float32 (Some (- 128)) 100)"
    "0 < length (band (one_cell GDT_Float32 (Some (- 128)) 100))"
    "0 < length (band (one_cell GDT_Int8 (Some (- 128)) 10))"
    "0 < length (band (one_cell GDT_Int8 (Some (- 128)) 5))"
    by (simp_all add: one_cell_def array_shape_def)
  have v: "band (one_cell GDT_Float32 (Some (- 128)) 100) ! 0 = 100"
    "band (one_cell GDT_Int8 (Some (- 128)) 10) ! 0 = 10"
    "band (one_cell GDT_Int8 (Some (- 128)) 5) ! 0 = 5"
    by (simp_all add: one_cell_def)
  show ?thesis
    using create_final_landslide_susceptibility_map_cell [OF h, of 0 200 "2 / 100" "1 / 10"] h
    unfolding v by (simp add: Let_def)
qed

section \<open>Properties of the run\<close>

lemma run_pipeline_simps [simp]:
  "files (run_pipeline fns out s) = insert out (files s)"
  "calls (run_pipeline fns out s) = calls s @ map (\<lambda>f. (f, out)) fns"
  by (simp_all add: run_pipeline_def)

lemma classified_rasters_stage_files:
  "files (classified_rasters_stage fcs s) = files s \<union> Classified_raster ` set fcs"
  by (induction fcs arbitrary: s) (auto simp: constants_raster_pipeline_def)

lemma classified_rasters_stage_cached:
  "Classified_raster ` set fcs \<subseteq> files s \<Longrightarrow> classified_rasters_stage fcs s = s"
  by (induction fcs arbitrary: s) auto

lemma forecast_rasters_stage_eq:
  "forecast_rasters_stage days s =
     s\<lparr>files := files s \<union> Forecast_raster ` set days, calls := calls s @ forecast_calls days\<rparr>"
  by (induction days arbitrary: s) (auto simp: forecast_pipeline_def forecast_calls_def run_pipeline_def)

lemma final_maps_stage_eq:
  "final_maps_stage days s =
     s\<lparr>files := files s \<union> Final_map ` set days, calls := calls s @ final_calls days\<rparr>"
  by (induction days arbitrary: s) (auto simp: final_calls_def run_pipeline_def)

lemma post_init_mono:
  assumes "fs \<subseteq> F"
  shows "FolderPaths_post_init fs = Inr () \<Longrightarrow> FolderPaths_post_init F = Inr ()"
    and "RawVectorsFilePaths_post_init fs = Inr () \<Longrightarrow> RawVectorsFilePaths_post_init F = Inr ()"
    and "RawRastersFilePaths_post_init fs = Inr () \<Longrightarrow> RawRastersFilePaths_post_init F = Inr ()"
  using assms
  by (auto simp: FolderPaths_post_init_def RawVectorsFilePaths_post_init_def
      RawRastersFilePaths_post_init_def split: if_splits)

lemma instantiate_dataclasses_mono:
  assumes "instantiate_dataclasses cfg fs = Inr ()" "fs \<subseteq> F"
  shows "instantiate_dataclasses cfg F = Inr ()"
proof -
  from assms(1) have a: "FolderPaths_post_init fs = Inr ()" "RawVectorsFilePaths_post_init fs = Inr ()"
    "RawRastersFilePaths_post_init fs = Inr ()" "FinalWeights_post_init (final_weights cfg) = Inr ()"
    by (auto simp: instantiate_dataclasses_def split: sum.splits)
  show ?thesis
    using post_init_mono [OF assms(2)] a by (simp add: instantiate_dataclasses_def)
qed

lemma main_cached:
  assumes inst: "instantiate_dataclasses cfg F = Inr ()"
    and cached: "cached_outputs \<subseteq> F"
    and csvs: "Raw_recorded_rainfall_csv \<in> F" "Raw_forecast_rainfall_csv \<in> F"
    and flag: "flag_update_forecast_rasters cfg = 1"
  shows "main cfg F =
           (if forecast_days (forecast_dates cfg) = [] then Exited else Finished,
            \<lparr>files = insert Summed_rainfall_csv F
                      \<union> Forecast_csv ` set (forecast_days (forecast_dates cfg))
                      \<union> Forecast_raster ` set (forecast_days (forecast_dates cfg))
                      \<union> Final_map ` set (forecast_days (forecast_dates cfg)),
             calls = forecast_calls (forecast_days (forecast_dates cfg))
                     @ final_calls (forecast_days (forecast_dates cfg))\<rparr>)"
proof -
  let ?s0 = "\<lparr>files = F, calls = []\<rparr>"
  from cached have c: "Classified_raster ` set factors \<subseteq> files ?s0"
    "Base_landslide_susceptibility_map \<in> F" "Recorded_rainfall_raster \<in> F"
    by (auto simp: cached_outputs_def)
  have s1: "classified_rasters_stage factors ?s0 = ?s0"
    using classified_rasters_stage_cached [OF c(1)] .
  have s2: "base_map_stage ?s0 = ?s0"
    using c(2) by (simp add: base_map_stage_def)
  have s3: "recorded_rainfall_stage ?s0 = \<lparr>files = insert Summed_rainfall_csv F, calls = []\<rparr>"
    using c(3) by (simp add: recorded_rainfall_stage_def Let_def)
  have r: "Raw_recorded_rainfall_csv \<in> files ?s0" using csvs by simp
  have f: "Raw_forecast_rainfall_csv \<in> files \<lparr>files = insert Summed_rainfall_csv F, calls = []\<rparr>"
    using csvs by simp
  have e: "forecast_days (forecast_dates cfg) = [] \<Longrightarrow>
        forecast_calls (forecast_days (forecast_dates cfg)) = [] \<and>
        final_calls (forecast_days (forecast_dates cfg)) = []"
    by (simp add: forecast_calls_def final_calls_def)
  show ?thesis
    unfolding main_def inst Let_def sum.case s1 s2 s3
    using r f flag e
    by (simp add: forecast_rasters_stage_eq final_maps_stage_eq Un_assoc)
qed



lemma main_Finished:
  assumes "main cfg fs = (Finished, s1)"
  shows "instantiate_dataclasses cfg fs = Inr ()"
    and "flag_update_forecast_rasters cfg = 1"
    and "forecast_days (forecast_dates cfg) \<noteq> []"
    and "Raw_recorded_rainfall_csv \<in> fs" and "Raw_forecast_rainfall_csv \<in> fs"
    and "files s1 =
           insert Summed_rainfall_csv (insert Recorded_rainfall_raster
             (insert Base_landslide_susceptibility_map (fs \<union> Classified_raster ` set factors)))
           \<union> Forecast_csv ` set (forecast_days (forecast_dates cfg))
           \<union> Forecast_raster ` set (forecast_days (forecast_dates cfg))
           \<union> Final_map ` set (forecast_days (forecast_dates cfg))"
proof -
  define t1 where "t1 = classified_rasters_stage factors \<lparr>files = fs, calls = []\<rparr>"
  define t2 where "t2 = base_map_stage t1"
  define t3 where "t3 = recorded_rainfall_stage t2"
  define days where "days = forecast_days (forecast_dates cfg)"
  define t4 where
    "t4 = forecast_rasters_stage days (t3\<lparr>files := files t3 \<union> Forecast_csv ` set days\<rparr>)"
  have f1: "files t1 = fs \<union> Classified_raster ` set factors"
    by (simp add: t1_def classified_rasters_stage_files)
  have f2: "files t2 = insert Base_landslide_susceptibility_map (fs \<union> Classified_raster ` set factors)"
    by (simp add: t2_def base_map_stage_def f1 insert_absorb)
  have f3: "files t3 = insert Summed_rainfall_csv (insert Recorded_rainfall_raster (files t2))"
    by (simp add: t3_def recorded_rainfall_stage_def Let_def forecast_pipeline_def insert_absorb
        insert_commute)
  show inst: "instantiate_dataclasses cfg fs = Inr ()"
  proof (cases "instantiate_dataclasses cfg fs")
    case (Inl e)
    with assms show ?thesis by (simp add: main_def)
  next
    case (Inr u)
    then show ?thesis by simp
  qed
  have m: "main cfg fs =
      (if Raw_recorded_rainfall_csv \<notin> files t2 then (Raised FileNotFoundError, t2)
       else if flag_update_forecast_rasters cfg = 0 then (Exited, t3)
       else if flag_update_forecast_rasters cfg = 1 then
         (if Raw_forecast_rainfall_csv \<notin> files t3 then (Raised FileNotFoundError, t3)
          else if days = [] then (Exited, t4) else (Finished, final_maps_stage days t4))
       else (Exited, t3))"
    unfolding main_def inst sum.case Let_def t1_def t2_def t3_def t4_def days_def
    by (rule refl)
  have rec: "Raw_recorded_rainfall_csv \<in> files t2"
  proof (rule ccontr)
    assume "Raw_recorded_rainfall_csv \<notin> files t2"
    with m have "main cfg fs = (Raised FileNotFoundError, t2)" by simp
    with assms show False by simp
  qed
  have m2: "main cfg fs =
      (if flag_update_forecast_rasters cfg = 0 then (Exited, t3)
       else if flag_update_forecast_rasters cfg = 1 then
         (if Raw_forecast_rainfall_csv \<notin> files t3 then (Raised FileNotFoundError, t3)
          else if days = [] then (Exited, t4) else (Finished, final_maps_stage days t4))
       else (Exited, t3))"
    using m rec by simp
  show flag: "flag_update_forecast_rasters cfg = 1"
  proof (rule ccontr)
    assume "flag_update_forecast_rasters cfg \<noteq> 1"
    with m2 have "main cfg fs = (Exited, t3)" by simp
    with assms show False by simp
  qed
  have m3: "main cfg fs =
         (if Raw_forecast_rainfall_csv \<notin> files t3 then (Raised FileNotFoundError, t3)
          else if days = [] then (Exited, t4) else (Finished, final_maps_stage days t4))"
    using m2 flag by simp
  have fc: "Raw_forecast_rainfall_csv \<in> files t3"
  proof (rule ccontr)
    assume "Raw_forecast_rainfall_csv \<notin> files t3"
    with m3 have "main cfg fs = (Raised FileNotFoundError, t3)" by simp
    with assms show False by simp
  qed
  have m4: "main cfg fs = (if days = [] then (Exited, t4) else (Finished, final_maps_stage days t4))"
    using m3 fc by simp
  have d: "days \<noteq> []"
  proof
    assume "days = []"
    with m4 have "main cfg fs = (Exited, t4)" by simp
    with assms show False by simp
  qed
  then show "forecast_days (forecast_dates cfg) \<noteq> []" by (simp add: days_def)
  have s1: "s1 = final_maps_stage days t4"
    using m4 d assms by simp
  show "Raw_recorded_rainfall_csv \<in> fs"
    using rec by (auto simp: f2)
  show "Raw_forecast_rainfall_csv \<in> fs"
    using fc by (auto simp: f3 f2)
  have "files s1 = files t3 \<union> Forecast_csv ` set days \<union> Forecast_raster ` set days
      \<union> Final_map ` set days"
    by (simp add: s1 t4_def forecast_rasters_stage_eq final_maps_stage_eq)
  then show "files s1 =
           insert Summed_rainfall_csv (insert Recorded_rainfall_raster
             (insert Base_landslide_susceptibility_map (fs \<union> Classified_raster ` set factors)))
           \<union> Forecast_csv ` set (forecast_days (forecast_dates cfg))
           \<union> Forecast_raster ` set (forecast_days (forecast_dates cfg))
           \<union> Final_map ` set (forecast_days (forecast_dates cfg))"
    by (simp only: f3 f2 days_def)
qed

lemma instantiate_example: "instantiate_dataclasses example_settings raw_inputs = Inr ()"
  by (simp add: instantiate_dataclasses_def FolderPaths_post_init_def
      RawVectorsFilePaths_post_init_def RawRastersFilePaths_post_init_def
      default_FinalWeights_ok example_settings_def raw_inputs_def factors_def)

lemma main_outcome_Finished:
  assumes inst: "instantiate_dataclasses cfg fs = Inr ()"
    and csvs: "Raw_recorded_rainfall_csv \<in> fs" "Raw_forecast_rainfall_csv \<in> fs"
    and flag: "flag_update_forecast_rasters cfg = 1"
    and days: "forecast_days (forecast_dates cfg) \<noteq> []"
  shows "fst (main cfg fs) = Finished"
proof -
  define t2 where
    "t2 = base_map_stage (classified_rasters_stage factors \<lparr>files = fs, calls = []\<rparr>)"
  have f2: "fs \<subseteq> files t2"
    by (auto simp: t2_def base_map_stage_def classified_rasters_stage_files)
  have f3: "files t2 \<subseteq> files (recorded_rainfall_stage t2)"
    by (auto simp: recorded_rainfall_stage_def Let_def forecast_pipeline_def)
  have r: "Raw_recorded_rainfall_csv \<in> files t2"
    and f: "Raw_forecast_rainfall_csv \<in> files (recorded_rainfall_stage t2)"
    using csvs f2 f3 by auto
  show ?thesis
    unfolding main_def inst sum.case Let_def t2_def [symmetric]
    using r f flag days by simp
qed

lemma first_run_Finished: "fst (main example_settings raw_inputs) = Finished"
proof (rule main_outcome_Finished [OF instantiate_example])
  show "Raw_recorded_rainfall_csv \<in> raw_inputs" "Raw_forecast_rainfall_csv \<in> raw_inputs"
    by (simp_all add: raw_inputs_def)
  show "flag_update_forecast_rasters example_settings = 1"
    by (simp add: example_settings_def)
  show "forecast_days (forecast_dates example_settings) \<noteq> []"
    by (simp add: example_settings_def forecast_days_def)
qed

text \<open>
  C8. The claim: with all output files present, the second run makes no call of the raster
  library, every stage skipping its computation when its output file exists. It fails after
  a first run with one forecast date: the forecast raster and the final map of day 1 exist,
  and the second run makes the six calls that compute them again.
\<close>

theorem main_second_run_makes_calls:
  "Forecast_raster 1 \<in> files (snd (main example_settings raw_inputs)) \<and>
   Final_map 1 \<in> files (snd (main example_settings raw_inputs)) \<and>
   calls (snd (main example_settings (files (snd (main example_settings raw_inputs))))) =
     [(Create_gridded_raster_from_csv, Forecast_raster 1), (Reproject_raster, Forecast_raster 1),
      (Resample_raster, Forecast_raster 1), (Clip_raster, Forecast_raster 1),
      (Classify_raster, Forecast_raster 1),
      (Create_final_landslide_susceptibility_map, Final_map 1)]"
proof -
  have h: "main example_settings raw_inputs = (Finished, snd (main example_settings raw_inputs))"
    using first_run_Finished by (metis prod.collapse)
  note m = main_Finished [OF h]
  let ?F = "files (snd (main example_settings raw_inputs))"
  have sub: "raw_inputs \<subseteq> ?F" unfolding m(6) by auto
  have inst: "instantiate_dataclasses example_settings ?F = Inr ()"
    using instantiate_dataclasses_mono [OF m(1) sub] .
  have c1: "cached_outputs \<subseteq> ?F"
    unfolding m(6) cached_outputs_def by auto
  have c2: "Raw_recorded_rainfall_csv \<in> ?F" "Raw_forecast_rainfall_csv \<in> ?F"
    using m(4,5) sub by auto
  have d: "forecast_days (forecast_dates example_settings) = [1]"
    by (simp add: example_settings_def forecast_days_def)
  have present: "Forecast_raster 1 \<in> ?F" "Final_map 1 \<in> ?F"
    unfolding m(6) d by simp_all
  have "calls (snd (main example_settings ?F)) =
     [(Create_gridded_raster_from_csv, Forecast_raster 1), (Reproject_raster, Forecast_raster 1),
      (Resample_raster, Forecast_raster 1), (Clip_raster, Forecast_raster 1),
      (Classify_raster, Forecast_raster 1),
      (Create_final_landslide_susceptibility_map, Final_map 1)]"
    unfolding main_cached [OF inst c1 c2 m(2)] d
    by (simp add: forecast_calls_def final_calls_def)
  with present show ?thesis by simp
qed

text \<open>
  Every stage keeps the files it finds and makes no call for an output it finds, whatever
  else is missing.
\<close>

lemma reuses_outputs_run_pipeline:
  assumes "reuses_outputs fs s" "out \<in> cached_outputs \<Longrightarrow> out \<notin> fs"
  shows "reuses_outputs fs (run_pipeline fns out s)"
  using assms by (auto simp: reuses_outputs_def)

lemma reuses_outputs_files:
  "reuses_outputs fs s \<Longrightarrow> reuses_outputs fs (s\<lparr>files := files s \<union> X\<rparr>)"
  by (auto simp: reuses_outputs_def)

lemma reuses_outputs_notin:
  "reuses_outputs fs s \<Longrightarrow> p \<notin> files s \<Longrightarrow> p \<notin> fs"
  by (auto simp: reuses_outputs_def)

lemma reuses_outputs_classified_rasters_stage:
  "reuses_outputs fs s \<Longrightarrow> reuses_outputs fs (classified_rasters_stage fcs s)"
proof (induction fcs arbitrary: s)
  case Nil
  then show ?case by simp
next
  case (Cons raster_type rest)
  show ?case
  proof (cases "Classified_raster raster_type \<in> files s")
    case True
    with Cons show ?thesis by simp
  next
    case False
    have "reuses_outputs fs (constants_raster_pipeline (Classified_raster raster_type) s)"
      unfolding constants_raster_pipeline_def
      using Cons.prems reuses_outputs_notin [OF Cons.prems False]
      by (rule reuses_outputs_run_pipeline)
    from Cons.IH [OF this] False show ?thesis by simp
  qed
qed

lemma reuses_outputs_base_map_stage:
  assumes "reuses_outputs fs s"
  shows "reuses_outputs fs (base_map_stage s)"
proof (cases "Base_landslide_susceptibility_map \<in> files s")
  case True
  with assms show ?thesis by (simp add: base_map_stage_def)
next
  case False
  have "reuses_outputs fs (run_pipeline [Base_map_fusion] Base_landslide_susceptibility_map s)"
    using assms reuses_outputs_notin [OF assms False] by (rule reuses_outputs_run_pipeline)
  with False show ?thesis by (simp add: base_map_stage_def)
qed

lemma reuses_outputs_recorded_rainfall_stage:
  assumes "reuses_outputs fs s"
  shows "reuses_outputs fs (recorded_rainfall_stage s)"
proof -
  define s' where "s' = s\<lparr>files := insert Summed_rainfall_csv (files s)\<rparr>"
  have r: "reuses_outputs fs s'"
    using assms by (auto simp: reuses_outputs_def s'_def)
  have e: "recorded_rainfall_stage s =
      (if Recorded_rainfall_raster \<in> files s' then s'
       else forecast_pipeline Recorded_rainfall_raster s')"
    by (simp add: recorded_rainfall_stage_def Let_def s'_def)
  show ?thesis
  proof (cases "Recorded_rainfall_raster \<in> files s'")
    case True
    with r e show ?thesis by simp
  next
    case False
    have "reuses_outputs fs (forecast_pipeline Recorded_rainfall_raster s')"
      unfolding forecast_pipeline_def
      using r reuses_outputs_notin [OF r False] by (rule reuses_outputs_run_pipeline)
    with False e show ?thesis by simp
  qed
qed

lemma reuses_outputs_forecast_rasters_stage:
  "reuses_outputs fs s \<Longrightarrow> reuses_outputs fs (forecast_rasters_stage days s)"
  by (auto simp: forecast_rasters_stage_eq reuses_outputs_def forecast_calls_def
      cached_outputs_def)

lemma reuses_outputs_final_maps_stage:
  "reuses_outputs fs s \<Longrightarrow> reuses_outputs fs (final_maps_stage days s)"
  by (auto simp: final_maps_stage_eq reuses_outputs_def final_calls_def cached_outputs_def)

lemma reuses_outputs_main: "reuses_outputs fs (snd (main cfg fs))"
proof (cases "instantiate_dataclasses cfg fs")
  case (Inl e)
  then show ?thesis by (simp add: main_def reuses_outputs_def)
next
  case inst: (Inr u)
  define t1 where "t1 = classified_rasters_stage factors \<lparr>files = fs, calls = []\<rparr>"
  define t2 where "t2 = base_map_stage t1"
  define t3 where "t3 = recorded_rainfall_stage t2"
  define days where "days = forecast_days (forecast_dates cfg)"
  define t4 where
    "t4 = forecast_rasters_stage days (t3\<lparr>files := files t3 \<union> Forecast_csv ` set days\<rparr>)"
  have m: "main cfg fs =
      (if Raw_recorded_rainfall_csv \<notin> files t2 then (Raised FileNotFoundError, t2)
       else if flag_update_forecast_rasters cfg = 0 then (Exited, t3)
       else if flag_update_forecast_rasters cfg = 1 then
         (if Raw_forecast_rainfall_csv \<notin> files t3 then (Raised FileNotFoundError, t3)
          else if days = [] then (Exited, t4) else (Finished, final_maps_stage days t4))
       else (Exited, t3))"
    unfolding main_def inst sum.case Let_def t1_def t2_def t3_def t4_def days_def
    by (rule refl)
  have "reuses_outputs fs \<lparr>files = fs, calls = []\<rparr>"
    by (simp add: reuses_outputs_def)
  then have r1: "reuses_outputs fs t1"
    unfolding t1_def by (rule reuses_outputs_classified_rasters_stage)
  then have r2: "reuses_outputs fs t2"
    unfolding t2_def by (rule reuses_outputs_base_map_stage)
  then have r3: "reuses_outputs fs t3"
    unfolding t3_def by (rule reuses_outputs_recorded_rainfall_stage)
  then have "reuses_outputs fs (t3\<lparr>files := files t3 \<union> Forecast_csv ` set days\<rparr>)"
    by (rule reuses_outputs_files)
  then have r4: "reuses_outputs fs t4"
    unfolding t4_def by (rule reuses_outputs_forecast_rasters_stage)
  then have r5: "reuses_outputs fs (final_maps_stage days t4)"
    by (rule reuses_outputs_final_maps_stage)
  show ?thesis
    unfolding m using r2 r3 r4 r5 by simp
qed

lemma second_run_after_Finished:
  assumes "main cfg fs = (Finished, s1)"
  shows "main cfg (files s1) =
           (Finished, \<lparr>files = files s1,
                       calls = forecast_calls (forecast_days (forecast_dates cfg))
                               @ final_calls (forecast_days (forecast_dates cfg))\<rparr>)"
proof -
  note m = main_Finished [OF assms]
  have sub: "fs \<subseteq> files s1" unfolding m(6) by auto
  have inst: "instantiate_dataclasses cfg (files s1) = Inr ()"
    using instantiate_dataclasses_mono [OF m(1) sub] .
  have c1: "cached_outputs \<subseteq> files s1"
    unfolding m(6) cached_outputs_def by auto
  have c2: "Raw_recorded_rainfall_csv \<in> files s1" "Raw_forecast_rainfall_csv \<in> files s1"
    using m(4,5) sub by auto
  have e: "insert Summed_rainfall_csv (files s1)
                      \<union> Forecast_csv ` set (forecast_days (forecast_dates cfg))
                      \<union> Forecast_raster ` set (forecast_days (forecast_dates cfg))
                      \<union> Final_map ` set (forecast_days (forecast_dates cfg)) = files s1"
    unfolding m(6) by auto
  show ?thesis
    unfolding main_cached [OF inst c1 c2 m(2)] e using m(3) by simp
qed

lemma slope_cached_run_Finished: "fst (main example_settings slope_cached_inputs) = Finished"
proof (rule main_outcome_Finished)
  show "instantiate_dataclasses example_settings slope_cached_inputs = Inr ()"
    by (rule instantiate_dataclasses_mono [OF instantiate_example])
       (auto simp: slope_cached_inputs_def)
  show "Raw_recorded_rainfall_csv \<in> slope_cached_inputs"
    "Raw_forecast_rainfall_csv \<in> slope_cached_inputs"
    by (simp_all add: slope_cached_inputs_def raw_inputs_def)
  show "flag_update_forecast_rasters example_settings = 1"
    by (simp add: example_settings_def)
  show "forecast_days (forecast_dates example_settings) \<noteq> []"
    by (simp add: example_settings_def forecast_days_def)
qed

text \<open>
  C8, amended. In every run, each output of a stage with an existence check (the
  classified rasters of the constant factors, the base map, the recorded rainfall raster)
  whose file exists when the run starts is reused as it is: the run makes no call of the
  raster library for it and leaves the file in place, whatever other files are missing.
  The forecast rasters and the final maps have no such check: when a run has finished, a
  second run with the same settings on the files the first one left calls the raster library
  for the five stages of every forecast day and for every final map, and for nothing else,
  and leaves the set of files as it found it.
\<close>

theorem main_reuses_existing_outputs:
  "(p \<in> cached_outputs \<and> p \<in> fs \<longrightarrow>
      (fn, p) \<notin> set (calls (snd (main cfg fs))) \<and> p \<in> files (snd (main cfg fs))) \<and>
   (main cfg fs = (Finished, s1) \<longrightarrow>
      main cfg (files s1) =
        (Finished, \<lparr>files = files s1,
                    calls = forecast_calls (forecast_days (forecast_dates cfg))
                            @ final_calls (forecast_days (forecast_dates cfg))\<rparr>))"
proof (intro conjI impI)
  assume p: "p \<in> cached_outputs \<and> p \<in> fs"
  have r: "reuses_outputs fs (snd (main cfg fs))" by (rule reuses_outputs_main)
  show "(fn, p) \<notin> set (calls (snd (main cfg fs)))"
  proof
    assume "(fn, p) \<in> set (calls (snd (main cfg fs)))"
    with r p show False by (auto simp: reuses_outputs_def)
  qed
  show "p \<in> files (snd (main cfg fs))"
    using r p by (auto simp: reuses_outputs_def)
next
  assume "main cfg fs = (Finished, s1)"
  then show "main cfg (files s1) =
        (Finished, \<lparr>files = files s1,
                    calls = forecast_calls (forecast_days (forecast_dates cfg))
                            @ final_calls (forecast_days (forecast_dates cfg))\<rparr>)"
    by (rule second_run_after_Finished)
qed

theorem main_reuses_existing_outputs_witness:
  "Classified_raster Slope \<in> cached_outputs \<and> Classified_raster Slope \<in> slope_cached_inputs \<and>
   Classified_raster Curvature \<notin> slope_cached_inputs \<and>
   (Classify_raster, Classified_raster Slope)
     \<notin> set (calls (snd (main example_settings slope_cached_inputs))) \<and>
   Classified_raster Slope \<in> files (snd (main example_settings slope_cached_inputs)) \<and>
   main example_settings slope_cached_inputs =
     (Finished, snd (main example_settings slope_cached_inputs)) \<and>
   main example_settings (files (snd (main example_settings slope_cached_inputs))) =
     (Finished, \<lparr>files = files (snd (main example_settings slope_cached_inputs)),
                 calls = forecast_calls [1] @ final_calls [1]\<rparr>)"
proof -
  have p: "Classified_raster Slope \<in> cached_outputs"
    "Classified_raster Slope \<in> slope_cached_inputs"
    by (simp_all add: cached_outputs_def factors_def slope_cached_inputs_def)
  have q: "Classified_raster Curvature \<notin> slope_cached_inputs"
    by (auto simp: slope_cached_inputs_def raw_inputs_def)
  have h: "main example_settings slope_cached_inputs =
      (Finished, snd (main example_settings slope_cached_inputs))"
    using slope_cached_run_Finished by (metis prod.collapse)
  have d: "forecast_days (forecast_dates example_settings) = [1]"
    by (simp add: example_settings_def forecast_days_def)
  show ?thesis
    using main_reuses_existing_outputs
      [of "Classified_raster Slope" slope_cached_inputs Classify_raster example_settings
          "snd (main example_settings slope_cached_inputs)"]
      p q h
    unfolding d by simp
qed

end
